theory Spec2Isabelle
  imports Main "HOL-Library.Sublist" "HOL-Library.AList"
begin

section \<open>Consent state model (types.ts)\<close>

text \<open>
  \<^verbatim>\<open>ConsentCategory = keyof ConsentCategories\<close>: the four category names.
\<close>

datatype ConsentCategory = Necessary | Analytics | Marketing | Preferences

text \<open>
  \<^verbatim>\<open>interface ConsentCategories\<close>. The TypeScript type of \<open>necessary\<close> is the literal
  \<open>true\<close>; at run time the slot is an ordinary boolean, so it is a \<open>bool\<close> here.
\<close>

record ConsentCategories =
  necessary :: bool
  analytics :: bool
  marketing :: bool
  preferences :: bool

text \<open>The indexed read \<^verbatim>\<open>consent[category]\<close>.\<close>

fun consent_get :: "ConsentCategories \<Rightarrow> ConsentCategory \<Rightarrow> bool" where
  "consent_get c Necessary = necessary c"
| "consent_get c Analytics = analytics c"
| "consent_get c Marketing = marketing c"
| "consent_get c Preferences = preferences c"

text \<open>
  \<^verbatim>\<open>Partial<ConsentCategories>\<close>: every slot may be missing (\<open>None\<close> stands for
  \<open>undefined\<close> and \<open>null\<close>, which the operator \<^verbatim>\<open>??\<close> treats alike).
\<close>

record PartialConsent =
  p_necessary :: "bool option"
  p_analytics :: "bool option"
  p_marketing :: "bool option"
  p_preferences :: "bool option"

text \<open>The nullish coalescing operator \<^verbatim>\<open>a ?? b\<close>.\<close>

fun nullish :: "'a option \<Rightarrow> 'a \<Rightarrow> 'a" where
  "nullish None d = d"
| "nullish (Some v) d = v"

definition defaultConsent :: ConsentCategories where
  "defaultConsent = \<lparr>necessary = True, analytics = False, marketing = False, preferences = False\<rparr>"

section \<open>Patterns and strings\<close>

text \<open>
  A \<^verbatim>\<open>RegExp\<close> object is a value of the host, not of the repository. It is modelled by
  what the code reads of it: its \<open>source\<close> text and the predicate its \<open>test\<close> method
  computes (a search anywhere in the input). Stateful flags (\<open>g\<close>, \<open>y\<close>) are outside
  the model.
\<close>

datatype RegExp = RegExp (source: string) (test: "string \<Rightarrow> bool")

text \<open>\<^verbatim>\<open>pattern: string | RegExp\<close>.\<close>

datatype Pattern = Str string | Rx RegExp

text \<open>\<^verbatim>\<open>key.startsWith(pattern)\<close>.\<close>

definition startsWith :: "string \<Rightarrow> string \<Rightarrow> bool" where
  "startsWith s p = prefix p s"

text \<open>\<^verbatim>\<open>text.includes(pattern)\<close>: the pattern occurs as a contiguous piece of the text.\<close>

fun str_includes :: "string \<Rightarrow> string \<Rightarrow> bool" where
  "str_includes [] p = (p = [])"
| "str_includes (c # t) p = (prefix p (c # t) \<or> str_includes t p)"

text \<open>\<^verbatim>\<open>toLowerCase()\<close> on the ASCII letters; other characters are kept.\<close>

definition lower_char :: "char \<Rightarrow> char" where
  "lower_char c =
     (case map_of (zip ''ABCDEFGHIJKLMNOPQRSTUVWXYZ'' ''abcdefghijklmnopqrstuvwxyz'') c of
        Some l \<Rightarrow> l
      | None \<Rightarrow> c)"

definition toLowerCase :: "string \<Rightarrow> string" where
  "toLowerCase s = map lower_char s"

section \<open>Storage interception engine (lib/storage-blocker.ts)\<close>

record StoragePattern =
  pattern :: Pattern
  category :: ConsentCategory
  description :: "string option"

record StorageBlockingConfig =
  enabled :: bool
  patterns_opt :: "StoragePattern list option"
  allowedKeys_opt :: "Pattern list option"
  queueOperations :: "bool option"
  maxQueueSize :: "int option"
  debug :: "bool option"

datatype OperationType = SetItem | RemoveItem | Clear

datatype StorageType = LocalStorage | SessionStorage

record QueuedStorageOperation =
  op_type :: OperationType
  storageType :: StorageType
  op_key :: "string option"
  op_value :: "string option"
  op_category :: ConsentCategory
  op_timestamp :: int

text \<open>
  A Web Storage area holds string values under string keys. Its native methods are total
  here: quota errors of the host are outside the model.
\<close>

type_synonym Storage = "string \<rightharpoonup> string"

record SavedMethods =
  setItem :: "string \<Rightarrow> string \<Rightarrow> Storage \<Rightarrow> Storage"
  removeItem :: "string \<Rightarrow> Storage \<Rightarrow> Storage"
  clear :: "Storage \<Rightarrow> Storage"

definition nativeMethods :: SavedMethods where
  "nativeMethods =
     \<lparr>setItem = (\<lambda>k v s. s(k \<mapsto> v)),
      removeItem = (\<lambda>k s. s(k := None)),
      clear = (\<lambda>s. Map.empty)\<rparr>"

text \<open>The two storage areas of the page.\<close>

record Page =
  localStorage :: Storage
  sessionStorage :: Storage

text \<open>
  The built-in table. Each entry is a regular expression \<^verbatim>\<open>/^word/\<close> whose word has
  no metacharacter, so its \<open>test\<close> holds exactly for the keys that start with the word.
\<close>

definition anchored :: "string \<Rightarrow> Pattern" where
  "anchored w = Rx (RegExp (CHR ''^'' # w) (\<lambda>k. prefix w k))"

definition builtin :: "string \<Rightarrow> ConsentCategory \<Rightarrow> string \<Rightarrow> StoragePattern" where
  "builtin w c d = \<lparr>pattern = anchored w, category = c, description = Some d\<rparr>"

definition defaultStoragePatterns :: "StoragePattern list" where
  "defaultStoragePatterns =
    [builtin ''_ga'' Analytics ''Google Analytics'',
     builtin ''_gid'' Analytics ''Google Analytics'',
     builtin ''amplitude'' Analytics ''Amplitude'',
     builtin ''mixpanel'' Analytics ''Mixpanel'',
     builtin ''mp_'' Analytics ''Mixpanel'',
     builtin ''ajs_'' Analytics ''Segment'',
     builtin ''heap'' Analytics ''Heap Analytics'',
     builtin ''ph_'' Analytics ''PostHog'',
     builtin ''plausible'' Analytics ''Plausible'',
     builtin ''_fbp'' Marketing ''Facebook Pixel'',
     builtin ''_fbc'' Marketing ''Facebook Click ID'',
     builtin ''hubspot'' Marketing ''HubSpot'',
     builtin ''intercom'' Marketing ''Intercom'',
     builtin ''drift'' Marketing ''Drift'',
     builtin ''_gcl'' Marketing ''Google Ads'',
     builtin ''_ttp'' Marketing ''TikTok Pixel'',
     builtin ''theme'' Preferences ''Theme preference'',
     builtin ''lang'' Preferences ''Language preference'',
     builtin ''i18n'' Preferences ''Internationalization'']"

text \<open>
  \<^verbatim>\<open>class StorageBlocker\<close>. \<open>origLocal\<close> and \<open>origSession\<close> are
  \<^verbatim>\<open>SavedMethods | null\<close>; the methods saved in \<open>origLocal\<close> are bound to the local
  storage area, those in \<open>origSession\<close> to the session storage area. Console output of
  the debug mode is not modelled.
\<close>

record StorageBlocker =
  queue :: "QueuedStorageOperation list"
  patterns :: "StoragePattern list"
  allowedKeys :: "Pattern list"
  consent :: ConsentCategories
  config :: StorageBlockingConfig
  active :: bool
  origLocal :: "SavedMethods option"
  origSession :: "SavedMethods option"

text \<open>The constructor.\<close>

definition new_StorageBlocker :: "StorageBlockingConfig \<Rightarrow> ConsentCategories \<Rightarrow> StorageBlocker" where
  "new_StorageBlocker cfg initialConsent =
     \<lparr>queue = [],
      patterns = defaultStoragePatterns @ (case patterns_opt cfg of None \<Rightarrow> [] | Some ps \<Rightarrow> ps),
      allowedKeys = anchored ''cookiepot_'' # (case allowedKeys_opt cfg of None \<Rightarrow> [] | Some ks \<Rightarrow> ks),
      consent = initialConsent,
      config = cfg,
      active = False,
      origLocal = None,
      origSession = None\<rparr>"

text \<open>
  \<open>start\<close> and \<open>stop\<close>. \<open>wrapStorage\<close> saves the methods found on the storage object
  (the native ones) and installs the overrides; in the model the overrides are installed
  exactly while \<open>active\<close> holds. The first argument of \<open>start\<close> says whether
  \<^verbatim>\<open>window\<close> is defined.
\<close>

definition start :: "bool \<Rightarrow> StorageBlocker \<Rightarrow> StorageBlocker" where
  "start has_window b =
     (if active b \<or> \<not> has_window then b
      else b\<lparr>origLocal := Some nativeMethods, origSession := Some nativeMethods, active := True\<rparr>)"

definition stop :: "StorageBlocker \<Rightarrow> StorageBlocker" where
  "stop b =
     (if \<not> active b then b
      else b\<lparr>origLocal := None, origSession := None, active := False\<rparr>)"

text \<open>
  The test a pattern of the storage table applies to a key; \<open>categorizeKey\<close> and
  \<open>scanStorage\<close> both write it inline.
\<close>

fun keyMatches :: "Pattern \<Rightarrow> string \<Rightarrow> bool" where
  "keyMatches (Str p) k = (k = p \<or> startsWith k p)"
| "keyMatches (Rx r) k = test r k"

text \<open>\<open>isAllowed\<close>: a string of the allow-list must equal the key.\<close>

fun allowedBy :: "Pattern \<Rightarrow> string \<Rightarrow> bool" where
  "allowedBy (Str p) k = (k = p)"
| "allowedBy (Rx r) k = test r k"

definition isAllowed :: "StorageBlocker \<Rightarrow> string \<Rightarrow> bool" where
  "isAllowed b k = list_ex (\<lambda>p. allowedBy p k) (allowedKeys b)"

text \<open>\<open>categorizeKey\<close>: the loop over the table, and its default.\<close>

fun categorizeIn :: "StoragePattern list \<Rightarrow> string \<Rightarrow> ConsentCategory" where
  "categorizeIn [] k = Marketing"
| "categorizeIn (p # ps) k = (if keyMatches (pattern p) k then category p else categorizeIn ps k)"

definition categorizeKey :: "StorageBlocker \<Rightarrow> string \<Rightarrow> ConsentCategory" where
  "categorizeKey b k = categorizeIn (patterns b) k"

definition hasConsent :: "StorageBlocker \<Rightarrow> ConsentCategory \<Rightarrow> bool" where
  "hasConsent b c = (if c = Necessary then True else consent_get (consent b) c)"

text \<open>\<open>queueOperation\<close>: \<^verbatim>\<open>shift()\<close> on an empty array does nothing.\<close>

definition queueOperation :: "StorageBlocker \<Rightarrow> QueuedStorageOperation \<Rightarrow> StorageBlocker" where
  "queueOperation b operation =
     (let maxSize = nullish (maxQueueSize (config b)) 100;
          q = (if int (length (queue b)) \<ge> maxSize then tl (queue b) else queue b)
      in b\<lparr>queue := q @ [operation]\<rparr>)"

text \<open>
  \<open>executeOperation\<close>: picks the saved methods of the operation's storage area, returns
  at once when there are none, and otherwise calls the saved method on that area.
\<close>

fun runSaved :: "SavedMethods \<Rightarrow> QueuedStorageOperation \<Rightarrow> Storage \<Rightarrow> Storage" where
  "runSaved saved operation s =
     (case op_type operation of
        SetItem \<Rightarrow>
          (case (op_key operation, op_value operation) of
             (Some k, Some v) \<Rightarrow> setItem saved k v s
           | _ \<Rightarrow> s)
      | RemoveItem \<Rightarrow>
          (case op_key operation of Some k \<Rightarrow> removeItem saved k s | None \<Rightarrow> s)
      | Clear \<Rightarrow> clear saved s)"

definition executeOperation :: "StorageBlocker \<Rightarrow> QueuedStorageOperation \<Rightarrow> Page \<Rightarrow> Page" where
  "executeOperation b operation pg =
     (if storageType operation = LocalStorage then
        (case origLocal b of
           None \<Rightarrow> pg
         | Some saved \<Rightarrow> pg\<lparr>localStorage := runSaved saved operation (localStorage pg)\<rparr>)
      else
        (case origSession b of
           None \<Rightarrow> pg
         | Some saved \<Rightarrow> pg\<lparr>sessionStorage := runSaved saved operation (sessionStorage pg)\<rparr>))"

text \<open>
  \<open>processQueue\<close>: the loop walks the queue from its head, executes the operations that
  have consent and collects the others in \<open>remaining\<close>, which then replaces the queue.
\<close>

fun processLoop ::
  "StorageBlocker \<Rightarrow> QueuedStorageOperation list \<Rightarrow> QueuedStorageOperation list \<Rightarrow> Page
     \<Rightarrow> QueuedStorageOperation list \<times> Page" where
  "processLoop b [] remaining pg = (remaining, pg)"
| "processLoop b (operation # rest) remaining pg =
     (if hasConsent b (op_category operation)
      then processLoop b rest remaining (executeOperation b operation pg)
      else processLoop b rest (remaining @ [operation]) pg)"

definition processQueue :: "StorageBlocker \<times> Page \<Rightarrow> StorageBlocker \<times> Page" where
  "processQueue st =
     (case st of (b, pg) \<Rightarrow>
        (case processLoop b (queue b) [] pg of (remaining, pg') \<Rightarrow> (b\<lparr>queue := remaining\<rparr>, pg')))"

definition updateConsent :: "ConsentCategories \<Rightarrow> StorageBlocker \<times> Page \<Rightarrow> StorageBlocker \<times> Page" where
  "updateConsent newConsent st = (case st of (b, pg) \<Rightarrow> processQueue (b\<lparr>consent := newConsent\<rparr>, pg))"

text \<open>
  The overrides \<open>wrapStorage\<close> installs. Each closes over the saved methods of its
  storage area and over the area's name; \<open>now\<close> is the value of \<^verbatim>\<open>Date.now()\<close>. They
  act on the blocker and on the storage area they are installed on.
\<close>

definition wrapped_setItem ::
  "SavedMethods \<Rightarrow> StorageType \<Rightarrow> int \<Rightarrow> string \<Rightarrow> string \<Rightarrow> StorageBlocker \<times> Storage
     \<Rightarrow> StorageBlocker \<times> Storage" where
  "wrapped_setItem saved ty now k v st =
     (case st of (b, s) \<Rightarrow>
        if isAllowed b k then (b, setItem saved k v s)
        else let cat = categorizeKey b k in
          if hasConsent b cat then (b, setItem saved k v s)
          else if queueOperations (config b) \<noteq> Some False
          then (queueOperation b
                  \<lparr>op_type = SetItem, storageType = ty, op_key = Some k, op_value = Some v,
                   op_category = cat, op_timestamp = now\<rparr>, s)
          else (b, s))"

definition wrapped_removeItem ::
  "SavedMethods \<Rightarrow> StorageType \<Rightarrow> int \<Rightarrow> string \<Rightarrow> StorageBlocker \<times> Storage
     \<Rightarrow> StorageBlocker \<times> Storage" where
  "wrapped_removeItem saved ty now k st =
     (case st of (b, s) \<Rightarrow>
        if isAllowed b k then (b, removeItem saved k s)
        else let cat = categorizeKey b k in
          if hasConsent b cat then (b, removeItem saved k s)
          else if queueOperations (config b) \<noteq> Some False
          then (queueOperation b
                  \<lparr>op_type = RemoveItem, storageType = ty, op_key = Some k, op_value = None,
                   op_category = cat, op_timestamp = now\<rparr>, s)
          else (b, s))"

definition wrapped_clear ::
  "SavedMethods \<Rightarrow> StorageType \<Rightarrow> int \<Rightarrow> StorageBlocker \<times> Storage \<Rightarrow> StorageBlocker \<times> Storage" where
  "wrapped_clear saved ty now st =
     (case st of (b, s) \<Rightarrow>
        if hasConsent b Marketing then (b, clear saved s)
        else if queueOperations (config b) \<noteq> Some False
        then (queueOperation b
                \<lparr>op_type = Clear, storageType = ty, op_key = None, op_value = None,
                 op_category = Marketing, op_timestamp = now\<rparr>, s)
        else (b, s))"

text \<open>
  A call of \<^verbatim>\<open>localStorage.clear()\<close> or \<^verbatim>\<open>sessionStorage.clear()\<close> by page code: while
  the blocker is active the override runs, with the methods saved for that area;
  otherwise the native method runs.
\<close>

definition area :: "StorageType \<Rightarrow> Page \<Rightarrow> Storage" where
  "area ty pg = (if ty = LocalStorage then localStorage pg else sessionStorage pg)"

definition set_area :: "StorageType \<Rightarrow> Storage \<Rightarrow> Page \<Rightarrow> Page" where
  "set_area ty s pg = (if ty = LocalStorage then pg\<lparr>localStorage := s\<rparr> else pg\<lparr>sessionStorage := s\<rparr>)"

definition saved_for :: "StorageBlocker \<Rightarrow> StorageType \<Rightarrow> SavedMethods option" where
  "saved_for b ty = (if ty = LocalStorage then origLocal b else origSession b)"

definition call_clear :: "StorageType \<Rightarrow> int \<Rightarrow> StorageBlocker \<times> Page \<Rightarrow> StorageBlocker \<times> Page" where
  "call_clear ty now st =
     (case st of (b, pg) \<Rightarrow>
        (case (active b, saved_for b ty) of
           (True, Some saved) \<Rightarrow>
             (case wrapped_clear saved ty now (b, area ty pg) of (b', s') \<Rightarrow> (b', set_area ty s' pg))
         | _ \<Rightarrow> (b, set_area ty (clear nativeMethods (area ty pg)) pg)))"

definition call_setItem ::
  "StorageType \<Rightarrow> int \<Rightarrow> string \<Rightarrow> string \<Rightarrow> StorageBlocker \<times> Page \<Rightarrow> StorageBlocker \<times> Page" where
  "call_setItem ty now k v st =
     (case st of (b, pg) \<Rightarrow>
        (case (active b, saved_for b ty) of
           (True, Some saved) \<Rightarrow>
             (case wrapped_setItem saved ty now k v (b, area ty pg) of
                (b', s') \<Rightarrow> (b', set_area ty s' pg))
         | _ \<Rightarrow> (b, set_area ty (setItem nativeMethods k v (area ty pg)) pg)))"

definition call_removeItem ::
  "StorageType \<Rightarrow> int \<Rightarrow> string \<Rightarrow> StorageBlocker \<times> Page \<Rightarrow> StorageBlocker \<times> Page" where
  "call_removeItem ty now k st =
     (case st of (b, pg) \<Rightarrow>
        (case (active b, saved_for b ty) of
           (True, Some saved) \<Rightarrow>
             (case wrapped_removeItem saved ty now k (b, area ty pg) of
                (b', s') \<Rightarrow> (b', set_area ty s' pg))
         | _ \<Rightarrow> (b, set_area ty (removeItem nativeMethods k (area ty pg)) pg)))"

section \<open>Script elements\<close>

text \<open>
  A script element: its attributes in their order, and its text. The properties \<open>src\<close>
  and \<open>type\<close> reflect the attributes of the same name (the host's resolution of a
  relative address is not modelled), and \<open>innerHTML\<close> of a script element is its text.
\<close>

record HTMLScriptElement =
  attributes :: "(string \<times> string) list"
  textContent :: string

definition innerHTML :: "HTMLScriptElement \<Rightarrow> string" where
  "innerHTML el = textContent el"

definition hasAttribute :: "HTMLScriptElement \<Rightarrow> string \<Rightarrow> bool" where
  "hasAttribute el n = (map_of (attributes el) n \<noteq> None)"

definition setAttribute :: "string \<Rightarrow> string \<Rightarrow> HTMLScriptElement \<Rightarrow> HTMLScriptElement" where
  "setAttribute n v el = el\<lparr>attributes := AList.update n v (attributes el)\<rparr>"

definition removeAttribute :: "string \<Rightarrow> HTMLScriptElement \<Rightarrow> HTMLScriptElement" where
  "removeAttribute n el = el\<lparr>attributes := AList.delete n (attributes el)\<rparr>"

definition src :: "HTMLScriptElement \<Rightarrow> string" where
  "src el = (case map_of (attributes el) ''src'' of None \<Rightarrow> [] | Some u \<Rightarrow> u)"

text \<open>
  The script elements the engine holds references to live in a store; \<open>attached\<close> lists
  those that have a parent, in document order, and \<open>fresh\<close> is the next free reference.
\<close>

type_synonym NodeRef = nat

record Document =
  elements :: "NodeRef \<rightharpoonup> HTMLScriptElement"
  attached :: "NodeRef list"
  fresh :: NodeRef

section \<open>The page around the client\<close>

text \<open>
  Values of \<^verbatim>\<open>JSON.parse\<close>. An object is read through \<open>map_of\<close>; the value of a
  number is never inspected.
\<close>

datatype json = JNull | JBool bool | JNum int | JStr string | JArr "json list"
  | JObj "(string \<times> json) list"

text \<open>
  Primitives of the host that the persistence layer calls. \<open>JSON_parse\<close> and
  \<open>decodeURIComponent\<close> give \<open>None\<close> where the host throws.
\<close>

record Host =
  JSON_parse :: "string \<Rightarrow> json option"
  JSON_stringify :: "json \<Rightarrow> string"
  decodeURIComponent :: "string \<Rightarrow> string option"
  encodeURIComponent :: "string \<Rightarrow> string"

text \<open>
  The local storage area as the client meets it: \<^verbatim>\<open>typeof localStorage\<close> may be
  \<open>undefined\<close>, the access may throw, or the area is there.
\<close>

datatype StorageAccess = Unavailable | Throws | Area Storage

datatype CookiePotEvent = Consent_change | Banner_show | Banner_hide | Banner_accept_all
  | Banner_reject_all | Banner_save_preferences

datatype Payload = PNull | PConsent ConsentCategories

datatype ConsentValue = Granted | Denied

record GoogleConsentState =
  ad_storage :: ConsentValue
  ad_user_data :: ConsentValue
  ad_personalization :: ConsentValue
  analytics_storage :: ConsentValue
  functionality_storage :: ConsentValue
  personalization_storage :: ConsentValue
  security_storage :: ConsentValue

datatype GtagCall = Consent_default | Consent_update GoogleConsentState

datatype InteractionType = Accept_all | Reject_all | Accept_selected | Save_preferences

record ConsentMetadata =
  bannerVersion :: string
  interactionType :: InteractionType
  metadata_language :: string

record SubmitConsentRequest =
  request_visitorId :: string
  request_sessionId :: string
  request_categories :: ConsentCategories
  request_metadata :: ConsentMetadata

text \<open>
  What the client does to the world outside it, in the order it does it: assignments to
  \<^verbatim>\<open>document.cookie\<close> (name, encoded value, Max-Age), writes to local storage, calls of
  \<^verbatim>\<open>gtag\<close>, replacements of a script element in the document (new element, old
  element), calls of registered event handlers, requests to the collector, and
  \<^verbatim>\<open>console.error\<close>. Output of \<^verbatim>\<open>console.log\<close> is not recorded.
\<close>

datatype Effect =
    CookieAssign string string "int option"
  | LocalSetItem string string
  | LocalRemoveItem string
  | Gtag GtagCall
  | ReplaceChild NodeRef NodeRef
  | Deliver nat CookiePotEvent Payload
  | Submit SubmitConsentRequest
  | ConsoleError string

text \<open>
  The browser state the client touches. \<open>cookies\<close> is the cookie jar of the document
  (name and stored text of each cookie), \<open>document\<close> the script elements, \<open>trace\<close> the
  effects so far.
\<close>

record Browser =
  has_document :: bool
  cookies :: "(string \<times> string) list"
  localStore :: StorageAccess
  has_gtag :: bool
  document :: Document
  trace :: "Effect list"

definition effect :: "Effect \<Rightarrow> Browser \<Rightarrow> Browser" where
  "effect e env = env\<lparr>trace := trace env @ [e]\<rparr>"

section \<open>Script interception engine (lib/auto-blocker.ts)\<close>

record ScriptPattern =
  script_pattern :: Pattern
  script_category :: ConsentCategory

record BlockedScript =
  element :: NodeRef
  blocked_category :: ConsentCategory
  blocked_src :: "string option"
  blocked_content :: "string option"

text \<open>\<^verbatim>\<open>class ScriptAutoBlocker\<close>; \<open>observer\<close> tells whether an observer is connected.\<close>

record ScriptAutoBlocker =
  script_patterns :: "ScriptPattern list"
  blockedScripts :: "BlockedScript list"
  observer :: bool
  script_consent :: ConsentCategories
  script_enabled :: bool

definition new_ScriptAutoBlocker ::
  "ScriptPattern list \<Rightarrow> ConsentCategories \<Rightarrow> bool \<Rightarrow> ScriptAutoBlocker" where
  "new_ScriptAutoBlocker pats initialConsent en =
     \<lparr>script_patterns = pats, blockedScripts = [], observer = False,
      script_consent = initialConsent, script_enabled = en\<rparr>"

text \<open>
  \<open>start\<close> and \<open>stop\<close> of the engine; the first argument of \<open>script_start\<close> says
  whether \<^verbatim>\<open>window\<close> and \<^verbatim>\<open>MutationObserver\<close> are defined.
\<close>

definition script_stop :: "ScriptAutoBlocker \<Rightarrow> ScriptAutoBlocker" where
  "script_stop sb = (if observer sb then sb\<lparr>observer := False\<rparr> else sb)"

definition script_start :: "bool \<Rightarrow> ScriptAutoBlocker \<Rightarrow> ScriptAutoBlocker" where
  "script_start has_observer sb =
     (if \<not> script_enabled sb \<or> \<not> has_observer then sb
      else (script_stop sb)\<lparr>observer := True\<rparr>)"

text \<open>
  The host's constructor \<^verbatim>\<open>new RegExp(pattern, 'i')\<close> is a parameter of the model: it
  gives the test of the compiled expression, or \<open>None\<close> when it throws.
\<close>

type_synonym RegExpCtor = "string \<Rightarrow> (string \<Rightarrow> bool) option"

definition matchesPattern :: "RegExpCtor \<Rightarrow> string \<Rightarrow> string \<Rightarrow> bool" where
  "matchesPattern mk txt pat =
     (case mk pat of
        Some regex_test \<Rightarrow> regex_test txt
      | None \<Rightarrow> str_includes (toLowerCase txt) (toLowerCase pat))"

definition matcher_of :: "Pattern \<Rightarrow> string" where
  "matcher_of p = (case p of Str s \<Rightarrow> s | Rx r \<Rightarrow> source r)"

text \<open>The test one pattern of the script table applies to an element's address and text.\<close>

definition scriptMatches :: "RegExpCtor \<Rightarrow> ScriptPattern \<Rightarrow> string \<Rightarrow> string \<Rightarrow> bool" where
  "scriptMatches mk p address content =
     (let matcher = matcher_of (script_pattern p) in
        (address \<noteq> [] \<and> matchesPattern mk address matcher) \<or>
        (content \<noteq> [] \<and> matchesPattern mk content matcher))"

fun matchIn :: "RegExpCtor \<Rightarrow> ScriptPattern list \<Rightarrow> string \<Rightarrow> string \<Rightarrow> ConsentCategory option" where
  "matchIn mk [] address content = None"
| "matchIn mk (p # ps) address content =
     (if scriptMatches mk p address content then Some (script_category p)
      else matchIn mk ps address content)"

definition matchScriptToCategory ::
  "RegExpCtor \<Rightarrow> ScriptAutoBlocker \<Rightarrow> HTMLScriptElement \<Rightarrow> ConsentCategory option" where
  "matchScriptToCategory mk sb script =
     matchIn mk (script_patterns sb) (src script)
       (if textContent script \<noteq> [] then textContent script else innerHTML script)"

definition script_hasConsent :: "ScriptAutoBlocker \<Rightarrow> ConsentCategory \<Rightarrow> bool" where
  "script_hasConsent sb c = consent_get (script_consent sb) c"

fun category_name :: "ConsentCategory \<Rightarrow> string" where
  "category_name Necessary = ''necessary''"
| "category_name Analytics = ''analytics''"
| "category_name Marketing = ''marketing''"
| "category_name Preferences = ''preferences''"

text \<open>\<open>blockScript\<close>, on the engine and on the element behind the reference \<open>r\<close>.\<close>

definition blockScript ::
  "NodeRef \<Rightarrow> ConsentCategory \<Rightarrow> ScriptAutoBlocker \<times> HTMLScriptElement
     \<Rightarrow> ScriptAutoBlocker \<times> HTMLScriptElement" where
  "blockScript r c st =
     (case st of (sb, script) \<Rightarrow>
        let blockedScript =
              \<lparr>element = r, blocked_category = c,
               blocked_src = (if src script \<noteq> [] then Some (src script) else None),
               blocked_content = (if textContent script \<noteq> [] then Some (textContent script) else None)\<rparr>;
            sb' = sb\<lparr>blockedScripts := blockedScripts sb @ [blockedScript]\<rparr>;
            s1 = setAttribute ''type'' ''text/plain'' script;
            s2 = setAttribute ''data-cookiepot-blocked'' (category_name c) s1;
            s3 = (if src s2 \<noteq> [] then removeAttribute ''src'' s2 else s2)
        in (sb', s3))"

definition handleScriptTag ::
  "RegExpCtor \<Rightarrow> NodeRef \<Rightarrow> ScriptAutoBlocker \<times> HTMLScriptElement
     \<Rightarrow> ScriptAutoBlocker \<times> HTMLScriptElement" where
  "handleScriptTag mk r st =
     (case st of (sb, script) \<Rightarrow>
        if hasAttribute script ''data-cookiepot-processed'' then (sb, script)
        else
          (case (case matchScriptToCategory mk sb script of
                   Some c \<Rightarrow>
                     if \<not> script_hasConsent sb c then blockScript r c (sb, script)
                     else (sb, script)
                 | None \<Rightarrow> (sb, script)) of
             (sb', script') \<Rightarrow> (sb', setAttribute ''data-cookiepot-processed'' ''true'' script')))"

text \<open>
  \<open>executeBlockedScript\<close>: a new element takes the attributes of the blocked one but the
  blocking marker, gets its type, address or text and the two markers, and replaces the
  blocked element where that one still has a parent.
\<close>

definition copyAttributes :: "(string \<times> string) list \<Rightarrow> HTMLScriptElement \<Rightarrow> HTMLScriptElement" where
  "copyAttributes attrs el =
     foldl (\<lambda>e (n, v). if n \<noteq> ''data-cookiepot-blocked'' then setAttribute n v e else e) el attrs"

definition replaceChild :: "NodeRef \<Rightarrow> NodeRef \<Rightarrow> NodeRef list \<Rightarrow> NodeRef list" where
  "replaceChild new old xs = map (\<lambda>x. if x = old then new else x) xs"

definition executeBlockedScript :: "BlockedScript \<Rightarrow> Browser \<Rightarrow> Browser" where
  "executeBlockedScript blockedScript env =
     (let doc = document env in
      case elements doc (element blockedScript) of
        None \<Rightarrow> env
      | Some old \<Rightarrow>
          let n0 = copyAttributes (attributes old) \<lparr>attributes = [], textContent = []\<rparr>;
              n1 = setAttribute ''type'' ''text/javascript'' n0;
              n2 = (case blocked_src blockedScript of
                      Some u \<Rightarrow> setAttribute ''src'' u n1
                    | None \<Rightarrow>
                        (case blocked_content blockedScript of
                           Some t \<Rightarrow> n1\<lparr>textContent := t\<rparr>
                         | None \<Rightarrow> n1));
              n3 = setAttribute ''data-cookiepot-processed'' ''true'' n2;
              n4 = setAttribute ''data-cookiepot-unblocked'' ''true'' n3;
              r = fresh doc;
              doc' = doc\<lparr>elements := (elements doc)(r \<mapsto> n4), fresh := Suc r\<rparr>
          in if element blockedScript \<in> set (attached doc)
             then effect (ReplaceChild r (element blockedScript))
                    (env\<lparr>document :=
                           doc'\<lparr>attached := replaceChild r (element blockedScript) (attached doc)\<rparr>\<rparr>)
             else env\<lparr>document := doc'\<rparr>)"

definition unblockScripts ::
  "ConsentCategory list \<Rightarrow> ScriptAutoBlocker \<times> Browser \<Rightarrow> ScriptAutoBlocker \<times> Browser" where
  "unblockScripts categories st =
     (case st of (sb, env) \<Rightarrow>
        let scriptsToUnblock =
              filter (\<lambda>s. blocked_category s \<in> set categories) (blockedScripts sb);
            env' = foldl (\<lambda>e s. executeBlockedScript s e) env scriptsToUnblock
        in (sb\<lparr>blockedScripts :=
                  filter (\<lambda>s. blocked_category s \<notin> set categories) (blockedScripts sb)\<rparr>,
            env'))"

definition script_updateConsent ::
  "ConsentCategories \<Rightarrow> ScriptAutoBlocker \<times> Browser \<Rightarrow> ScriptAutoBlocker \<times> Browser" where
  "script_updateConsent newConsent st =
     (case st of (sb, env) \<Rightarrow>
        let previousConsent = script_consent sb;
            sb' = sb\<lparr>script_consent := newConsent\<rparr>;
            changedCategories =
              filter (\<lambda>c. \<not> consent_get previousConsent c \<and> consent_get newConsent c)
                [Analytics, Marketing, Preferences]
        in if changedCategories \<noteq> [] then unblockScripts changedCategories (sb', env)
           else (sb', env))"

section \<open>Persistence layer (lib/storage.ts)\<close>

record ConsentState =
  visitorId :: string
  sessionId :: string
  categories :: ConsentCategories
  timestamp :: "string option"

definition CONSENT :: string where
  "CONSENT = ''cookiepot_consent''"

text \<open>\<open>ConsentCategoriesSchema\<close> and \<open>ConsentStateSchema\<close>, as \<open>safeParse\<close> applies them.\<close>

definition bool_field :: "(string \<times> json) list \<Rightarrow> string \<Rightarrow> bool option" where
  "bool_field kv n = (case map_of kv n of Some (JBool v) \<Rightarrow> Some v | _ \<Rightarrow> None)"

definition id_field :: "(string \<times> json) list \<Rightarrow> string \<Rightarrow> string option" where
  "id_field kv n =
     (case map_of kv n of
        Some (JStr v) \<Rightarrow> if 1 \<le> length v \<and> length v \<le> 128 then Some v else None
      | _ \<Rightarrow> None)"

definition ConsentCategoriesSchema :: "json \<Rightarrow> ConsentCategories option" where
  "ConsentCategoriesSchema j =
     (case j of
        JObj kv \<Rightarrow>
          (case (bool_field kv ''necessary'', bool_field kv ''analytics'',
                 bool_field kv ''marketing'', bool_field kv ''preferences'') of
             (Some True, Some a, Some m, Some p) \<Rightarrow>
               Some \<lparr>necessary = True, analytics = a, marketing = m, preferences = p\<rparr>
           | _ \<Rightarrow> None)
      | _ \<Rightarrow> None)"

definition ConsentStateSchema :: "json \<Rightarrow> ConsentState option" where
  "ConsentStateSchema j =
     (case j of
        JObj kv \<Rightarrow>
          (case (id_field kv ''visitorId'', id_field kv ''sessionId'',
                 (case map_of kv ''categories'' of Some c \<Rightarrow> ConsentCategoriesSchema c | None \<Rightarrow> None)) of
             (Some v, Some s, Some c) \<Rightarrow>
               (case map_of kv ''timestamp'' of
                  None \<Rightarrow> Some \<lparr>visitorId = v, sessionId = s, categories = c, timestamp = None\<rparr>
                | Some (JStr t) \<Rightarrow>
                    Some \<lparr>visitorId = v, sessionId = s, categories = c, timestamp = Some t\<rparr>
                | Some _ \<Rightarrow> None)
           | _ \<Rightarrow> None)
      | _ \<Rightarrow> None)"

text \<open>The object \<^verbatim>\<open>JSON.stringify\<close> is given for a consent state.\<close>

definition categories_json :: "ConsentCategories \<Rightarrow> json" where
  "categories_json c =
     JObj [(''necessary'', JBool (necessary c)), (''analytics'', JBool (analytics c)),
           (''marketing'', JBool (marketing c)), (''preferences'', JBool (preferences c))]"

definition state_json :: "ConsentState \<Rightarrow> json" where
  "state_json st =
     JObj ([(''visitorId'', JStr (visitorId st)), (''sessionId'', JStr (sessionId st)),
            (''categories'', categories_json (categories st))] @
           (case timestamp st of None \<Rightarrow> [] | Some t \<Rightarrow> [(''timestamp'', JStr t)]))"

text \<open>\<^verbatim>\<open>document.cookie\<close> as read: the cookies of the jar, joined.\<close>

fun join_cookies :: "(string \<times> string) list \<Rightarrow> string" where
  "join_cookies [] = []"
| "join_cookies [(n, v)] = n @ ''='' @ v"
| "join_cookies ((n, v) # rest) = n @ ''='' @ v @ ''; '' @ join_cookies rest"

definition document_cookie :: "Browser \<Rightarrow> string" where
  "document_cookie env = join_cookies (cookies env)"

text \<open>\<^verbatim>\<open>text.split(';')\<close>.\<close>

fun split_on :: "char \<Rightarrow> string \<Rightarrow> string list" where
  "split_on d [] = [[]]"
| "split_on d (c # cs) =
     (if c = d then [] # split_on d cs
      else (case split_on d cs of [] \<Rightarrow> [[c]] | piece # pieces \<Rightarrow> (c # piece) # pieces))"

text \<open>
  \<open>getCookie\<close>. A result \<open>Inl\<close> is an exception on its way out; \<open>Inr None\<close> is
  \<open>null\<close>.
\<close>

fun getCookie_loop :: "Host \<Rightarrow> string \<Rightarrow> string list \<Rightarrow> string + string option" where
  "getCookie_loop h nameEQ [] = Inr None"
| "getCookie_loop h nameEQ (c # cs) =
     (if c = [] then getCookie_loop h nameEQ cs
      else let cookie = dropWhile (\<lambda>x. x = CHR '' '') c in
        if prefix nameEQ cookie
        then (case decodeURIComponent h (drop (length nameEQ) cookie) of
                None \<Rightarrow> Inl ''URIError''
              | Some v \<Rightarrow> Inr (Some v))
        else getCookie_loop h nameEQ cs)"

definition getCookie :: "Host \<Rightarrow> string \<Rightarrow> Browser \<Rightarrow> string + string option" where
  "getCookie h name env =
     (if \<not> has_document env then Inr None
      else getCookie_loop h (name @ ''='') (split_on CHR '';'' (document_cookie env)))"

text \<open>
  The two steps the loader applies to a stored text: \<^verbatim>\<open>JSON.parse\<close>, which may throw,
  and \<open>safeParse\<close>, which does not.
\<close>

definition parseRecord :: "Host \<Rightarrow> string \<Rightarrow> string + ConsentState option" where
  "parseRecord h txt =
     (case JSON_parse h txt of
        None \<Rightarrow> Inl ''SyntaxError''
      | Some parsed \<Rightarrow> Inr (ConsentStateSchema parsed))"

text \<open>
  The body of the \<^verbatim>\<open>try\<close> block of \<open>getConsentFromStorage\<close>: the cookie first, then
  the fallback store (\<open>readLocal\<close>). An exception leaves the block at once.
\<close>

definition readLocal :: "Host \<Rightarrow> Browser \<Rightarrow> string + ConsentState option" where
  "readLocal h env =
     (case localStore env of
        Unavailable \<Rightarrow> Inr None
      | Throws \<Rightarrow> Inl ''SecurityError''
      | Area s \<Rightarrow>
          (case s CONSENT of
             None \<Rightarrow> Inr None
           | Some localValue \<Rightarrow> if localValue = [] then Inr None else parseRecord h localValue))"

definition getConsentFromStorage_try :: "Host \<Rightarrow> Browser \<Rightarrow> string + ConsentState option" where
  "getConsentFromStorage_try h env =
     (case getCookie h CONSENT env of
        Inl e \<Rightarrow> Inl e
      | Inr None \<Rightarrow> readLocal h env
      | Inr (Some cookieValue) \<Rightarrow>
          if cookieValue = [] then readLocal h env
          else (case parseRecord h cookieValue of
                  Inl e \<Rightarrow> Inl e
                | Inr (Some validated) \<Rightarrow> Inr (Some validated)
                | Inr None \<Rightarrow> readLocal h env))"

text \<open>
  \<open>getConsentFromStorage\<close>: the handler of the \<^verbatim>\<open>try\<close> block logs and falls through
  to \<^verbatim>\<open>return null\<close>. The result keeps the shape of a call that could throw.
\<close>

definition getConsentFromStorage :: "Host \<Rightarrow> Browser \<Rightarrow> string + ConsentState option" where
  "getConsentFromStorage h env =
     (case getConsentFromStorage_try h env of
        Inl e \<Rightarrow> Inr None
      | Inr r \<Rightarrow> Inr r)"

record CookieOptions =
  domain :: "string option"
  maxAge :: "int option"

text \<open>
  \<open>setCookie\<close>. The host stores the cookie under its name, or drops it when Max-Age is
  not positive; Domain, Path, SameSite and Secure do not choose the entry in the model.
\<close>

definition cookie_assign ::
  "string \<Rightarrow> string \<Rightarrow> int option \<Rightarrow> (string \<times> string) list \<Rightarrow> (string \<times> string) list" where
  "cookie_assign name v age jar =
     (case age of
        Some a \<Rightarrow> if a \<le> 0 then AList.delete name jar else AList.update name v jar
      | None \<Rightarrow> AList.update name v jar)"

definition setCookie :: "Host \<Rightarrow> string \<Rightarrow> string \<Rightarrow> CookieOptions \<Rightarrow> Browser \<Rightarrow> Browser" where
  "setCookie h name v options env =
     (if \<not> has_document env then env
      else effect (CookieAssign name (encodeURIComponent h v) (maxAge options))
             (env\<lparr>cookies := cookie_assign name (encodeURIComponent h v) (maxAge options) (cookies env)\<rparr>))"

definition saveConsentToStorage :: "Host \<Rightarrow> ConsentState \<Rightarrow> CookieOptions \<Rightarrow> Browser \<Rightarrow> Browser" where
  "saveConsentToStorage h st options env =
     (let v = JSON_stringify h (state_json st);
          env1 = setCookie h CONSENT v
                   \<lparr>domain = domain options, maxAge = Some (nullish (maxAge options) (365 * 24 * 60 * 60))\<rparr> env
      in case localStore env1 of
           Unavailable \<Rightarrow> env1
         | Throws \<Rightarrow> effect (ConsoleError ''[CookiePot] Error saving consent to storage:'') env1
         | Area s \<Rightarrow> effect (LocalSetItem CONSENT v) (env1\<lparr>localStore := Area (s(CONSENT \<mapsto> v))\<rparr>))"

definition clearConsentFromStorage :: "Host \<Rightarrow> string option \<Rightarrow> Browser \<Rightarrow> Browser" where
  "clearConsentFromStorage h cookieDomain env =
     (let env1 = setCookie h CONSENT [] \<lparr>domain = cookieDomain, maxAge = Some (- 1)\<rparr> env
      in case localStore env1 of
           Unavailable \<Rightarrow> env1
         | Throws \<Rightarrow> effect (ConsoleError ''[CookiePot] Error clearing consent from storage:'') env1
         | Area s \<Rightarrow> effect (LocalRemoveItem CONSENT) (env1\<lparr>localStore := Area (s(CONSENT := None))\<rparr>))"

section \<open>Third-party signal adapter (lib/google-consent-mode.ts)\<close>

record GoogleConsentModeManager =
  google_enabled :: bool

definition value_of :: "bool \<Rightarrow> ConsentValue" where
  "value_of granted = (if granted then Granted else Denied)"

definition mapConsentToGoogle :: "ConsentCategories \<Rightarrow> GoogleConsentState" where
  "mapConsentToGoogle c =
     \<lparr>ad_storage = value_of (marketing c),
      ad_user_data = value_of (marketing c),
      ad_personalization = value_of (marketing c),
      analytics_storage = value_of (analytics c),
      functionality_storage = value_of (preferences c),
      personalization_storage = value_of (preferences c),
      security_storage = Granted\<rparr>"

definition google_initializeDefaults :: "GoogleConsentModeManager \<Rightarrow> Browser \<Rightarrow> Browser" where
  "google_initializeDefaults g env =
     (if \<not> google_enabled g \<or> \<not> has_gtag env then env else effect (Gtag Consent_default) env)"

definition google_updateConsent :: "GoogleConsentModeManager \<Rightarrow> ConsentCategories \<Rightarrow> Browser \<Rightarrow> Browser" where
  "google_updateConsent g c env =
     (if \<not> google_enabled g \<or> \<not> has_gtag env then env
      else effect (Gtag (Consent_update (mapConsentToGoogle c))) env)"

section \<open>Notifications (lib/event-emitter.ts)\<close>

text \<open>
  The handlers registered for each event, in the order of their registration. A handler
  is a callback of the page: the model records that it is called and with what; an
  exception it throws is caught by \<open>emit\<close> and does not reach the client. Handlers are
  taken not to call back into the client and not to change the object they are given.
\<close>

type_synonym EventEmitter = "CookiePotEvent \<Rightarrow> nat list"

definition emit :: "EventEmitter \<Rightarrow> CookiePotEvent \<Rightarrow> Payload \<Rightarrow> Browser \<Rightarrow> Browser" where
  "emit em ev d env = foldl (\<lambda>e handler. effect (Deliver handler ev d) e) env (em ev)"

section \<open>Consent orchestrator (client.ts)\<close>

text \<open>The outcome of \<^verbatim>\<open>apiClient.submitConsent\<close>: the promise resolves or rejects.\<close>

datatype ApiOutcome = Resolved | Rejected string

text \<open>How the promise an \<^verbatim>\<open>async\<close> method returns is settled.\<close>

datatype Settlement = Fulfilled | RejectedWith string

record CookiePot =
  cookieDomain :: "string option"
  cookieMaxAge :: int
  language :: string
  eventEmitter :: EventEmitter
  client_visitorId :: string
  client_sessionId :: string
  consentState :: ConsentCategories
  googleConsentMode :: "GoogleConsentModeManager option"
  scriptAutoBlocker :: "ScriptAutoBlocker option"

definition getConsent :: "CookiePot \<Rightarrow> ConsentCategories" where
  "getConsent client = consentState client"

text \<open>
  \<open>setConsent\<close> is an \<^verbatim>\<open>async\<close> method with one \<^verbatim>\<open>await\<close>. Its statements up to
  and including the call of \<^verbatim>\<open>apiClient.submitConsent\<close> run at once, in the order of the
  source: that is \<open>setConsent_begin\<close>, where \<open>now\<close> is the text of
  \<^verbatim>\<open>new Date().toISOString()\<close>. The rest runs when the awaited promise has settled: that
  is \<open>setConsent_resume\<close>, which gives the client, the browser, and how the promise
  \<open>setConsent\<close> returned settles.
\<close>

definition setConsent_begin ::
  "Host \<Rightarrow> string \<Rightarrow> PartialConsent \<Rightarrow> InteractionType \<Rightarrow> CookiePot \<times> Browser
     \<Rightarrow> CookiePot \<times> Browser" where
  "setConsent_begin h now cats interaction st =
     (case st of (client, env) \<Rightarrow>
        let newState =
              \<lparr>necessary = True,
               analytics = nullish (p_analytics cats) (analytics (consentState client)),
               marketing = nullish (p_marketing cats) (marketing (consentState client)),
               preferences = nullish (p_preferences cats) (preferences (consentState client))\<rparr>;
            client1 = client\<lparr>consentState := newState\<rparr>;
            state = \<lparr>visitorId = client_visitorId client1, sessionId = client_sessionId client1,
                     categories = consentState client1, timestamp = Some now\<rparr>;
            env1 = saveConsentToStorage h state
                     \<lparr>domain = cookieDomain client1, maxAge = Some (cookieMaxAge client1)\<rparr> env;
            env2 = (case googleConsentMode client1 of
                      Some g \<Rightarrow> google_updateConsent g (consentState client1) env1
                    | None \<Rightarrow> env1);
            (client3, env3) =
              (case scriptAutoBlocker client1 of
                 Some sb \<Rightarrow>
                   (case script_updateConsent (consentState client1) (sb, env2) of
                      (sb', env') \<Rightarrow> (client1\<lparr>scriptAutoBlocker := Some sb'\<rparr>, env'))
               | None \<Rightarrow> (client1, env2));
            env4 = emit (eventEmitter client3) Consent_change (PConsent (consentState client3)) env3;
            env5 = effect (Submit \<lparr>request_visitorId = client_visitorId client3,
                                   request_sessionId = client_sessionId client3,
                                   request_categories = consentState client3,
                                   request_metadata =
                                     \<lparr>bannerVersion = ''1.0.0'', interactionType = interaction,
                                      metadata_language = language client3\<rparr>\<rparr>) env4
        in (client3, env5))"

definition setConsent_resume ::
  "ApiOutcome \<Rightarrow> CookiePot \<times> Browser \<Rightarrow> CookiePot \<times> Browser \<times> Settlement" where
  "setConsent_resume outcome st =
     (case st of (client, env) \<Rightarrow>
        (case outcome of
           Resolved \<Rightarrow> (client, env, Fulfilled)
         | Rejected error \<Rightarrow>
             (client,
              effect (ConsoleError ''[CookiePot] Failed to sync consent to backend:'') env,
              Fulfilled)))"

text \<open>A call of \<open>setConsent\<close> that nothing else interleaves with; \<open>outcome\<close> is what the collector answers.\<close>

definition setConsent ::
  "Host \<Rightarrow> ApiOutcome \<Rightarrow> string \<Rightarrow> PartialConsent \<Rightarrow> InteractionType \<Rightarrow> CookiePot \<times> Browser
     \<Rightarrow> CookiePot \<times> Browser \<times> Settlement" where
  "setConsent h outcome now cats interaction st =
     setConsent_resume outcome (setConsent_begin h now cats interaction st)"

definition acceptAll ::
  "Host \<Rightarrow> ApiOutcome \<Rightarrow> string \<Rightarrow> CookiePot \<times> Browser \<Rightarrow> CookiePot \<times> Browser \<times> Settlement" where
  "acceptAll h outcome now st =
     (case setConsent h outcome now
             \<lparr>p_necessary = None, p_analytics = Some True, p_marketing = Some True,
              p_preferences = Some True\<rparr> Accept_all st of
        (client, env, Fulfilled) \<Rightarrow>
          (client, emit (eventEmitter client) Banner_accept_all (PConsent (consentState client)) env,
           Fulfilled)
      | (client, env, RejectedWith e) \<Rightarrow> (client, env, RejectedWith e))"

definition rejectAll ::
  "Host \<Rightarrow> ApiOutcome \<Rightarrow> string \<Rightarrow> CookiePot \<times> Browser \<Rightarrow> CookiePot \<times> Browser \<times> Settlement" where
  "rejectAll h outcome now st =
     (case setConsent h outcome now
             \<lparr>p_necessary = None, p_analytics = Some False, p_marketing = Some False,
              p_preferences = Some False\<rparr> Reject_all st of
        (client, env, Fulfilled) \<Rightarrow>
          (client, emit (eventEmitter client) Banner_reject_all (PConsent (consentState client)) env,
           Fulfilled)
      | (client, env, RejectedWith e) \<Rightarrow> (client, env, RejectedWith e))"

definition resetConsent :: "Host \<Rightarrow> CookiePot \<times> Browser \<Rightarrow> CookiePot \<times> Browser \<times> Settlement" where
  "resetConsent h st =
     (case st of (client, env) \<Rightarrow>
        let env1 = clearConsentFromStorage h (cookieDomain client) env;
            client1 = client\<lparr>consentState :=
                        \<lparr>necessary = True, analytics = False, marketing = False, preferences = False\<rparr>\<rparr>;
            env2 = emit (eventEmitter client1) Consent_change (PConsent (consentState client1)) env1
        in (client1, env2, Fulfilled))"

section \<open>Notions used in the statements\<close>

text \<open>A queued operation is satisfied by a consent state: its category is \<open>necessary\<close> or granted.\<close>

definition satisfied :: "ConsentCategories \<Rightarrow> QueuedStorageOperation \<Rightarrow> bool" where
  "satisfied c operation =
     (op_category operation = Necessary \<or> consent_get c (op_category operation))"

text \<open>What a saved method does to the page when it runs a queued operation.\<close>

definition runOn :: "SavedMethods \<Rightarrow> SavedMethods \<Rightarrow> Page \<Rightarrow> QueuedStorageOperation \<Rightarrow> Page" where
  "runOn sl ss pg operation =
     (if storageType operation = LocalStorage
      then pg\<lparr>localStorage := runSaved sl operation (localStorage pg)\<rparr>
      else pg\<lparr>sessionStorage := runSaved ss operation (sessionStorage pg)\<rparr>)"

text \<open>The capacity \<open>queueOperation\<close> reads from the configuration.\<close>

definition capacity :: "StorageBlocker \<Rightarrow> int" where
  "capacity b = nullish (maxQueueSize (config b)) 100"

text \<open>The operation the override of \<open>clear\<close> queues.\<close>

definition clearOperation :: "StorageType \<Rightarrow> int \<Rightarrow> QueuedStorageOperation" where
  "clearOperation ty now =
     \<lparr>op_type = Clear, storageType = ty, op_key = None, op_value = None,
      op_category = Marketing, op_timestamp = now\<rparr>"

text \<open>The indexed read of a partial update.\<close>

fun partial_get :: "PartialConsent \<Rightarrow> ConsentCategory \<Rightarrow> bool option" where
  "partial_get p Necessary = p_necessary p"
| "partial_get p Analytics = p_analytics p"
| "partial_get p Marketing = p_marketing p"
| "partial_get p Preferences = p_preferences p"

text \<open>The valid record a store yields, if it yields one.\<close>

definition cookieRecord :: "Host \<Rightarrow> Browser \<Rightarrow> ConsentState option" where
  "cookieRecord h env =
     (case getCookie h CONSENT env of
        Inr (Some v) \<Rightarrow>
          if v = [] then None
          else (case parseRecord h v of Inr (Some r) \<Rightarrow> Some r | _ \<Rightarrow> None)
      | _ \<Rightarrow> None)"

definition localRecord :: "Host \<Rightarrow> Browser \<Rightarrow> ConsentState option" where
  "localRecord h env = (case readLocal h env of Inr (Some r) \<Rightarrow> Some r | _ \<Rightarrow> None)"

text \<open>The record \<open>setConsent\<close> persists, and its stored text.\<close>

definition mergedState :: "PartialConsent \<Rightarrow> CookiePot \<Rightarrow> ConsentCategories" where
  "mergedState cats client =
     \<lparr>necessary = True,
      analytics = (case p_analytics cats of None \<Rightarrow> analytics (consentState client) | Some v \<Rightarrow> v),
      marketing = (case p_marketing cats of None \<Rightarrow> marketing (consentState client) | Some v \<Rightarrow> v),
      preferences = (case p_preferences cats of None \<Rightarrow> preferences (consentState client) | Some v \<Rightarrow> v)\<rparr>"

definition recordText :: "Host \<Rightarrow> string \<Rightarrow> PartialConsent \<Rightarrow> CookiePot \<Rightarrow> string" where
  "recordText h now cats client =
     JSON_stringify h (state_json
       \<lparr>visitorId = client_visitorId client, sessionId = client_sessionId client,
        categories = mergedState cats client, timestamp = Some now\<rparr>)"

text \<open>
  What \<open>updateConsent\<close> of the script blocker does with a document: the blocker and the
  document after it, and the replacements it made, in order.
\<close>

definition domOnly :: "Document \<Rightarrow> Browser" where
  "domOnly d =
     \<lparr>has_document = False, cookies = [], localStore = Unavailable, has_gtag = False,
      document = d, trace = []\<rparr>"

definition scriptConsumer ::
  "ConsentCategories \<Rightarrow> ScriptAutoBlocker \<Rightarrow> Document \<Rightarrow> ScriptAutoBlocker \<times> Document \<times> Effect list" where
  "scriptConsumer c sb d =
     (case script_updateConsent c (sb, domOnly d) of (sb', env) \<Rightarrow> (sb', document env, trace env))"

definition scriptEffects :: "ConsentCategories \<Rightarrow> ScriptAutoBlocker option \<Rightarrow> Document \<Rightarrow> Effect list" where
  "scriptEffects c blocker d =
     (case blocker of None \<Rightarrow> [] | Some sb \<Rightarrow> snd (snd (scriptConsumer c sb d)))"

definition scriptDocument :: "ConsentCategories \<Rightarrow> ScriptAutoBlocker option \<Rightarrow> Document \<Rightarrow> Document" where
  "scriptDocument c blocker d =
     (case blocker of None \<Rightarrow> d | Some sb \<Rightarrow> fst (snd (scriptConsumer c sb d)))"

definition is_Submit :: "Effect \<Rightarrow> bool" where
  "is_Submit e = (case e of Submit r \<Rightarrow> True | _ \<Rightarrow> False)"

definition is_Gtag :: "Effect \<Rightarrow> bool" where
  "is_Gtag e = (case e of Gtag g \<Rightarrow> True | _ \<Rightarrow> False)"

text \<open>The effects of the steps of \<open>setConsent\<close> and \<open>resetConsent\<close>, step by step.\<close>

definition store_put :: "StorageAccess \<Rightarrow> string \<Rightarrow> string \<Rightarrow> StorageAccess" where
  "store_put a k v = (case a of Area s \<Rightarrow> Area (s(k \<mapsto> v)) | other \<Rightarrow> other)"

definition store_remove :: "StorageAccess \<Rightarrow> string \<Rightarrow> StorageAccess" where
  "store_remove a k = (case a of Area s \<Rightarrow> Area (s(k := None)) | other \<Rightarrow> other)"

definition storeEffects :: "StorageAccess \<Rightarrow> Effect \<Rightarrow> Effect \<Rightarrow> Effect list" where
  "storeEffects a failure success =
     (case a of Unavailable \<Rightarrow> [] | Throws \<Rightarrow> [failure] | Area s \<Rightarrow> [success])"

definition persistEffects :: "Host \<Rightarrow> string \<Rightarrow> int \<Rightarrow> Browser \<Rightarrow> Effect list" where
  "persistEffects h v age env =
     (if has_document env then [CookieAssign CONSENT (encodeURIComponent h v) (Some age)] else []) @
     storeEffects (localStore env)
       (ConsoleError ''[CookiePot] Error saving consent to storage:'') (LocalSetItem CONSENT v)"

definition clearEffects :: "Host \<Rightarrow> Browser \<Rightarrow> Effect list" where
  "clearEffects h env =
     (if has_document env then [CookieAssign CONSENT (encodeURIComponent h []) (Some (- 1))] else []) @
     storeEffects (localStore env)
       (ConsoleError ''[CookiePot] Error clearing consent from storage:'') (LocalRemoveItem CONSENT)"

definition signalEffects ::
  "GoogleConsentModeManager option \<Rightarrow> ConsentCategories \<Rightarrow> Browser \<Rightarrow> Effect list" where
  "signalEffects g c env =
     (case g of
        None \<Rightarrow> []
      | Some m \<Rightarrow>
          if google_enabled m \<and> has_gtag env then [Gtag (Consent_update (mapConsentToGoogle c))]
          else [])"

definition notifyEffects :: "EventEmitter \<Rightarrow> CookiePotEvent \<Rightarrow> Payload \<Rightarrow> Effect list" where
  "notifyEffects em ev d = map (\<lambda>handler. Deliver handler ev d) (em ev)"

definition reportRequest :: "PartialConsent \<Rightarrow> InteractionType \<Rightarrow> CookiePot \<Rightarrow> SubmitConsentRequest" where
  "reportRequest cats interaction client =
     \<lparr>request_visitorId = client_visitorId client,
      request_sessionId = client_sessionId client,
      request_categories = mergedState cats client,
      request_metadata =
        \<lparr>bannerVersion = ''1.0.0'', interactionType = interaction,
         metadata_language = language client\<rparr>\<rparr>"

definition reportFailure :: "ApiOutcome \<Rightarrow> Effect list" where
  "reportFailure outcome =
     (case outcome of
        Resolved \<Rightarrow> []
      | Rejected e \<Rightarrow> [ConsoleError ''[CookiePot] Failed to sync consent to backend:''])"

section \<open>Values for the examples\<close>

definition demoConfig :: StorageBlockingConfig where
  "demoConfig = \<lparr>enabled = True, patterns_opt = None, allowedKeys_opt = None,
                  queueOperations = None, maxQueueSize = None, debug = None\<rparr>"

definition emptyPage :: Page where
  "emptyPage = \<lparr>localStorage = Map.empty, sessionStorage = Map.empty\<rparr>"

text \<open>
  A started blocker without any consent, after three writes of the page: all three are
  queued, as analytics, marketing (no pattern matches) and preferences.
\<close>

definition demoQueued :: "StorageBlocker \<times> Page" where
  "demoQueued =
     call_setItem LocalStorage 3 ''theme'' ''dark''
       (call_setItem SessionStorage 2 ''unknown_tracker'' ''x''
         (call_setItem LocalStorage 1 ''_ga_1'' ''v1''
           (start True (new_StorageBlocker demoConfig defaultConsent), emptyPage)))"

text \<open>The same, after a write of one of the SDK's own keys, which is let through.\<close>

definition demoStored :: "StorageBlocker \<times> Page" where
  "demoStored = call_setItem LocalStorage 4 ''cookiepot_visitor_id'' ''v-1'' demoQueued"

definition grantAnalytics :: ConsentCategories where
  "grantAnalytics = \<lparr>necessary = True, analytics = True, marketing = False, preferences = False\<rparr>"

definition numbered :: "int \<Rightarrow> QueuedStorageOperation" where
  "numbered i =
     \<lparr>op_type = SetItem, storageType = LocalStorage, op_key = Some ''_ga'', op_value = Some ''v'',
      op_category = Analytics, op_timestamp = i\<rparr>"

definition smallQueue :: StorageBlocker where
  "smallQueue = new_StorageBlocker (demoConfig\<lparr>maxQueueSize := Some 2\<rparr>) defaultConsent"

definition zeroQueue :: StorageBlocker where
  "zeroQueue = new_StorageBlocker (demoConfig\<lparr>maxQueueSize := Some 0\<rparr>) defaultConsent"

text \<open>
  A stand-in for the host's constructor of regular expressions, exact on the sources the
  examples give it: a source of letters and digits has no metacharacter, so with flag
  \<open>i\<close> it searches the text for the source, ignoring case; the other source the examples
  use, \<^verbatim>\<open>[invalid(regex\<close>, is rejected by the host. The repository's tests rely on both.
\<close>

definition alnum :: "char \<Rightarrow> bool" where
  "alnum c =
     (let n = (of_char c :: nat)
      in (48 \<le> n \<and> n \<le> 57) \<or> (65 \<le> n \<and> n \<le> 90) \<or> (97 \<le> n \<and> n \<le> 122))"

definition plainRegExp :: RegExpCtor where
  "plainRegExp pat =
     (if list_all alnum pat
      then Some (\<lambda>txt. str_includes (toLowerCase txt) (toLowerCase pat))
      else None)"

definition demoScripts :: ScriptAutoBlocker where
  "demoScripts =
     new_ScriptAutoBlocker
       [\<lparr>script_pattern = Str ''analytics'', script_category = Analytics\<rparr>,
        \<lparr>script_pattern = Str ''facebook'', script_category = Marketing\<rparr>]
       defaultConsent True"

definition scriptAt :: "string \<Rightarrow> HTMLScriptElement" where
  "scriptAt address = \<lparr>attributes = [(''src'', address)], textContent = []\<rparr>"

text \<open>
  A small host for the examples. Its JSON reader and writer know the record text the
  examples use, the reader also knows the empty object and rejects every other text (the
  examples give it \<^verbatim>\<open>garbage\<close>). Its URI coding is the identity; the real one escapes
  punctuation, which no statement below depends on.
\<close>

definition demoNow :: string where
  "demoNow = ''2026-01-27T12:00:00.000Z''"

definition demoRecord :: ConsentState where
  "demoRecord =
     \<lparr>visitorId = ''v-1'', sessionId = ''s-1'', categories = grantAnalytics,
      timestamp = Some demoNow\<rparr>"

definition demoText :: string where
  \<open>demoText = ''{"visitorId":"v-1","sessionId":"s-1","categories":{"necessary":true,"analytics":true,"marketing":false,"preferences":false},"timestamp":"2026-01-27T12:00:00.000Z"}''\<close>

definition demoHost :: Host where
  "demoHost =
     \<lparr>JSON_parse = (\<lambda>txt. if txt = demoText then Some (state_json demoRecord)
                           else if txt = ''{}'' then Some (JObj []) else None),
      JSON_stringify = (\<lambda>j. if j = state_json demoRecord then demoText else ''null''),
      decodeURIComponent = (\<lambda>txt. Some txt),
      encodeURIComponent = (\<lambda>txt. txt)\<rparr>"

text \<open>
  A page that inserted an analytics script before any consent: the script blocker has
  neutralised the element, which is the one script of the document. The client has that
  blocker, one listener for the change of consent, and the signal adapter.
\<close>

definition demoBlocked :: "ScriptAutoBlocker \<times> HTMLScriptElement" where
  "demoBlocked =
     handleScriptTag plainRegExp 0 (demoScripts, scriptAt ''https://example.com/analytics.js'')"

definition demoBrowser :: Browser where
  "demoBrowser =
     \<lparr>has_document = True, cookies = [], localStore = Area Map.empty, has_gtag = True,
      document = \<lparr>elements = [0 \<mapsto> snd demoBlocked], attached = [0], fresh = 1\<rparr>,
      trace = []\<rparr>"

definition demoClient :: CookiePot where
  "demoClient =
     \<lparr>cookieDomain = None, cookieMaxAge = 365 * 24 * 60 * 60, language = ''en'',
      eventEmitter = (\<lambda>ev. if ev = Consent_change then [0] else []),
      client_visitorId = ''v-1'', client_sessionId = ''s-1'',
      consentState = defaultConsent,
      googleConsentMode = Some \<lparr>google_enabled = True\<rparr>,
      scriptAutoBlocker = Some (fst demoBlocked)\<rparr>"

definition onlyAnalytics :: PartialConsent where
  "onlyAnalytics = \<lparr>p_necessary = Some False, p_analytics = Some True, p_marketing = None,
                     p_preferences = None\<rparr>"

text \<open>A client whose visitor has granted marketing, and the demo client after one update.\<close>

definition demoMarketing :: CookiePot where
  "demoMarketing =
     demoClient\<lparr>consentState :=
       \<lparr>necessary = True, analytics = False, marketing = True, preferences = False\<rparr>\<rparr>"

definition demoConsented :: "CookiePot \<times> Browser" where
  "demoConsented =
     (case setConsent demoHost Resolved demoNow onlyAnalytics Accept_selected (demoClient, demoBrowser) of
        (client, env, settled) \<Rightarrow> (client, env))"

text \<open>
  Three browsers for the loader: both stores hold bad data; the cookie holds the record;
  only the fallback store holds it.
\<close>

definition demoCorrupt :: Browser where
  "demoCorrupt =
     demoBrowser\<lparr>cookies := [(CONSENT, ''garbage'')], localStore := Area [CONSENT \<mapsto> ''{}'']\<rparr>"

definition demoCookie :: Browser where
  "demoCookie =
     demoBrowser\<lparr>cookies := [(''theme'', ''dark''), (CONSENT, demoText)],
                  localStore := Area [CONSENT \<mapsto> ''{}'']\<rparr>"

definition demoFallback :: Browser where
  "demoFallback = demoBrowser\<lparr>localStore := Area [CONSENT \<mapsto> demoText]\<rparr>"

section \<open>Storage interception engine: the queue\<close>

lemma processLoop_eq:
  "processLoop b ops remaining pg =
     (remaining @ filter (\<lambda>operation. \<not> hasConsent b (op_category operation)) ops,
      foldl (\<lambda>p operation. executeOperation b operation p) pg
        (filter (\<lambda>operation. hasConsent b (op_category operation)) ops))"
  by (induction ops arbitrary: remaining pg) simp_all

lemma hasConsent_satisfied:
  "hasConsent (b\<lparr>consent := c\<rparr>) (op_category operation) = satisfied c operation"
  by (simp add: hasConsent_def satisfied_def)

lemma executeOperation_consent: "executeOperation (b\<lparr>consent := c\<rparr>) = executeOperation b"
  by (rule ext, rule ext) (simp add: executeOperation_def)

lemma updateConsent_eq:
  "updateConsent c (b, pg) =
     (b\<lparr>consent := c, queue := filter (\<lambda>operation. \<not> satisfied c operation) (queue b)\<rparr>,
      foldl (\<lambda>p operation. executeOperation b operation p) pg (filter (satisfied c) (queue b)))"
  by (simp add: updateConsent_def processQueue_def processLoop_eq hasConsent_satisfied
      executeOperation_consent)

lemma executeOperation_saved:
  "origLocal b = Some sl \<Longrightarrow> origSession b = Some ss \<Longrightarrow>
   executeOperation b operation pg = runOn sl ss pg operation"
  by (simp add: executeOperation_def runOn_def)

lemma executeOperation_none:
  "origLocal b = None \<Longrightarrow> origSession b = None \<Longrightarrow> executeOperation b operation pg = pg"
  by (simp add: executeOperation_def)

lemma foldl_unchanged: "(\<And>p x. f p x = p) \<Longrightarrow> foldl f pg xs = pg"
  by (induction xs) simp_all

lemma queue_queueOperation:
  "queue (queueOperation b x) =
     (if capacity b \<le> int (length (queue b)) then tl (queue b) else queue b) @ [x]"
  by (simp add: queueOperation_def capacity_def Let_def)

lemma capacity_queueOperation: "capacity (queueOperation b x) = capacity b"
  by (simp add: queueOperation_def capacity_def Let_def)

lemma enqueue_many:
  "1 \<le> capacity b \<Longrightarrow> int (length (queue b)) \<le> capacity b \<Longrightarrow>
   queue (foldl queueOperation b ops) =
     drop (length (queue b) + length ops - nat (capacity b)) (queue b @ ops)"
proof (induction ops arbitrary: b)
  case Nil
  then show ?case by simp
next
  case (Cons x xs)
  let ?b1 = "queueOperation b x"
  have cap1: "capacity ?b1 = capacity b"
    by (rule capacity_queueOperation)
  have len1: "int (length (queue ?b1)) \<le> capacity ?b1"
    using Cons.prems by (auto simp: queue_queueOperation cap1)
  have ih: "queue (foldl queueOperation ?b1 xs) =
      drop (length (queue ?b1) + length xs - nat (capacity b)) (queue ?b1 @ xs)"
    using Cons.IH [of ?b1] Cons.prems(1) len1 by (simp add: cap1)
  show ?case
  proof (cases "capacity b \<le> int (length (queue b))")
    case True
    with Cons.prems have eq: "nat (capacity b) = length (queue b)" by simp
    then have "queue b \<noteq> []" using Cons.prems(1) by auto
    then obtain y ys where q: "queue b = y # ys" by (cases "queue b") auto
    have "queue ?b1 = ys @ [x]" using True q by (simp add: queue_queueOperation)
    with ih eq q show ?thesis by simp
  next
    case False
    then have "queue ?b1 = queue b @ [x]" by (simp add: queue_queueOperation)
    with ih show ?thesis by simp
  qed
qed

lemma set_area_area: "set_area ty (area ty pg) pg = pg"
  by (simp add: set_area_def area_def)

lemmas demo_defs =
  demoQueued_def call_setItem_def wrapped_setItem_def start_def new_StorageBlocker_def
  demoConfig_def defaultConsent_def emptyPage_def saved_for_def isAllowed_def anchored_def
  categorizeKey_def defaultStoragePatterns_def builtin_def hasConsent_def queueOperation_def
  area_def set_area_def startsWith_def grantAnalytics_def

text \<open>
  Claim C2, for a blocker that holds its saved methods. For every queue and every new
  consent state, \<open>updateConsent\<close> replaces the consent the blocker holds and replays the
  queue in the order of enqueueing: every queued operation whose category is now granted
  (or is \<open>necessary\<close>) is passed to \<open>executeOperation\<close>, one after the other in queue
  order, and leaves the queue; every other operation stays, in its original relative
  order. Where the blocker holds the saved original methods of both storage areas (it is
  started and not stopped), executing an operation is calling the saved method of its
  area.
\<close>

theorem updateConsent_replays_queue:
  "updateConsent newConsent (b, pg) =
     (b\<lparr>consent := newConsent,
        queue := filter (\<lambda>operation. \<not> satisfied newConsent operation) (queue b)\<rparr>,
      foldl (\<lambda>p operation. executeOperation b operation p) pg
        (filter (satisfied newConsent) (queue b)))
   \<and> (\<forall>sl ss. origLocal b = Some sl \<and> origSession b = Some ss \<longrightarrow>
         snd (updateConsent newConsent (b, pg)) =
           foldl (runOn sl ss) pg (filter (satisfied newConsent) (queue b)))"
proof -
  have "foldl (\<lambda>p operation. executeOperation b operation p) pg xs = foldl (runOn sl ss) pg xs"
    if "origLocal b = Some sl" "origSession b = Some ss" for sl ss xs
    using that by (induction xs arbitrary: pg) (simp_all add: executeOperation_saved)
  then show ?thesis by (simp add: updateConsent_eq)
qed

lemma demoQueued_queue:
  "queue (fst demoQueued) =
     [\<lparr>op_type = SetItem, storageType = LocalStorage, op_key = Some ''_ga_1'', op_value = Some ''v1'',
       op_category = Analytics, op_timestamp = 1\<rparr>,
      \<lparr>op_type = SetItem, storageType = SessionStorage, op_key = Some ''unknown_tracker'',
       op_value = Some ''x'', op_category = Marketing, op_timestamp = 2\<rparr>,
      \<lparr>op_type = SetItem, storageType = LocalStorage, op_key = Some ''theme'', op_value = Some ''dark'',
       op_category = Preferences, op_timestamp = 3\<rparr>]"
  by (simp add: demo_defs)

lemma demoQueued_page: "snd demoQueued = emptyPage"
  by (simp add: demo_defs)

lemma demoQueued_saved:
  "origLocal (fst demoQueued) = Some nativeMethods"
  "origSession (fst demoQueued) = Some nativeMethods"
  "active (fst demoQueued)"
  by (simp_all add: demo_defs)

theorem updateConsent_replays_queue_witness:
  "origLocal (fst demoQueued) = Some nativeMethods \<and>
   origSession (fst demoQueued) = Some nativeMethods \<and>
   map op_key (queue (fst demoQueued)) = [Some ''_ga_1'', Some ''unknown_tracker'', Some ''theme''] \<and>
   map op_key (queue (fst (updateConsent grantAnalytics demoQueued))) =
     [Some ''unknown_tracker'', Some ''theme''] \<and>
   consent (fst (updateConsent grantAnalytics demoQueued)) = grantAnalytics \<and>
   localStorage (snd (updateConsent grantAnalytics demoQueued)) ''_ga_1'' = Some ''v1'' \<and>
   localStorage (snd (updateConsent grantAnalytics demoQueued)) ''theme'' = None"
proof -
  note t = updateConsent_replays_queue [of grantAnalytics "fst demoQueued" "snd demoQueued"]
  have t1: "fst (updateConsent grantAnalytics demoQueued) =
      (fst demoQueued)\<lparr>consent := grantAnalytics,
         queue := filter (\<lambda>operation. \<not> satisfied grantAnalytics operation) (queue (fst demoQueued))\<rparr>"
    using t [THEN conjunct1] by simp
  have t2: "snd (updateConsent grantAnalytics demoQueued) =
       foldl (runOn nativeMethods nativeMethods) (snd demoQueued)
         (filter (satisfied grantAnalytics) (queue (fst demoQueued)))"
    using t [THEN conjunct2, rule_format, of nativeMethods nativeMethods] demoQueued_saved(1,2)
    by simp
  show ?thesis
    unfolding t1 t2 demoQueued_page
    by (simp add: demoQueued_saved demoQueued_queue satisfied_def grantAnalytics_def runOn_def
        nativeMethods_def emptyPage_def)
qed

lemma stopped_demo:
  "queue (stop (fst demoQueued)) = queue (fst demoQueued)"
  "origLocal (stop (fst demoQueued)) = None" "origSession (stop (fst demoQueued)) = None"
  by (simp_all add: stop_def demoQueued_saved)

text \<open>
  The claim as stated fails for a blocker that was stopped: its first queued operation, a
  write of \<open>_ga_1\<close> to local storage, is satisfied by the new consent and leaves the
  queue, but the key is never written.
\<close>

theorem updateConsent_after_stop_counterexample:
  "satisfied grantAnalytics (hd (queue (stop (fst demoQueued)))) \<and>
   op_type (hd (queue (stop (fst demoQueued)))) = SetItem \<and>
   storageType (hd (queue (stop (fst demoQueued)))) = LocalStorage \<and>
   op_key (hd (queue (stop (fst demoQueued)))) = Some ''_ga_1'' \<and>
   op_value (hd (queue (stop (fst demoQueued)))) = Some ''v1'' \<and>
   hd (queue (stop (fst demoQueued)))
     \<notin> set (queue (fst (updateConsent grantAnalytics (stop (fst demoQueued), snd demoQueued)))) \<and>
   localStorage (snd (updateConsent grantAnalytics (stop (fst demoQueued), snd demoQueued)))
     ''_ga_1'' = None"
proof -
  have "foldl (\<lambda>p operation. executeOperation (stop (fst demoQueued)) operation p) pg xs = pg"
    for pg xs
    by (rule foldl_unchanged) (simp add: executeOperation_none stopped_demo)
  then show ?thesis
    by (simp add: updateConsent_eq stopped_demo demoQueued_queue demoQueued_page satisfied_def
        grantAnalytics_def emptyPage_def)
qed

text \<open>
  Claim C3, for a capacity of at least one. Let the capacity \<open>N\<close> (\<open>maxQueueSize\<close>, 100
  when it is not given) be at least 1 and the queue not longer than \<open>N\<close>. After any
  operations are enqueued the queue holds the last \<open>N\<close> of all operations, in their
  original order, and is never longer than \<open>N\<close>; enqueuing \<open>N + 1\<close> operations into
  an empty queue leaves the \<open>N\<close> most recent ones, the oldest being absent.
\<close>

theorem queue_keeps_most_recent:
  "1 \<le> capacity b \<Longrightarrow> int (length (queue b)) \<le> capacity b \<Longrightarrow>
   queue (foldl queueOperation b ops) =
     drop (length (queue b) + length ops - nat (capacity b)) (queue b @ ops) \<and>
   int (length (queue (foldl queueOperation b ops))) \<le> capacity b \<and>
   (queue b = [] \<and> length ops = nat (capacity b) + 1 \<longrightarrow>
      queue (foldl queueOperation b ops) = tl ops)"
proof -
  assume c: "1 \<le> capacity b" and l: "int (length (queue b)) \<le> capacity b"
  have e: "queue (foldl queueOperation b ops) =
      drop (length (queue b) + length ops - nat (capacity b)) (queue b @ ops)"
    by (rule enqueue_many [OF c l])
  have n: "int (length (queue (foldl queueOperation b ops))) \<le> capacity b"
    unfolding e using c l by simp
  have t: "queue (foldl queueOperation b ops) = tl ops"
    if "queue b = []" "length ops = nat (capacity b) + 1"
    unfolding e using that by (simp add: drop_Suc)
  from e n t show ?thesis by blast
qed

theorem queue_keeps_most_recent_witness:
  "1 \<le> capacity smallQueue \<and> int (length (queue smallQueue)) \<le> capacity smallQueue \<and>
   capacity smallQueue = 2 \<and> queue smallQueue = [] \<and>
   queue (foldl queueOperation smallQueue [numbered 1, numbered 2, numbered 3]) =
     [numbered 2, numbered 3]"
proof -
  have c: "capacity smallQueue = 2" and q: "queue smallQueue = []"
    by (simp_all add: smallQueue_def capacity_def new_StorageBlocker_def demoConfig_def)
  have "queue (foldl queueOperation smallQueue [numbered 1, numbered 2, numbered 3]) =
      tl [numbered 1, numbered 2, numbered 3]"
    using queue_keeps_most_recent [of smallQueue "[numbered 1, numbered 2, numbered 3]"] c q
    by simp
  with c q show ?thesis by simp
qed

text \<open>
  With capacity 0 the claim fails: one operation is enqueued into the empty queue and stays
  there, so the queue is longer than its capacity and holds more than the 0 most recent.
\<close>

theorem queue_capacity_zero_counterexample:
  "capacity zeroQueue = 0 \<and> queue zeroQueue = [] \<and>
   queue (foldl queueOperation zeroQueue [numbered 1]) = [numbered 1] \<and>
   \<not> int (length (queue (foldl queueOperation zeroQueue [numbered 1]))) \<le> capacity zeroQueue"
  by (simp add: zeroQueue_def capacity_def new_StorageBlocker_def demoConfig_def queueOperation_def)

text \<open>
  Claim C6. While the blocker is active, an intercepted \<open>clear\<close> calls the saved clear
  of the storage area exactly when marketing consent is granted, whatever the pattern table
  and the stored keys are. Without marketing consent the page's storage is unchanged, and
  the operation \<open>clear\<close> with category marketing is put at the end of the queue, unless
  queueing is disabled, in which case the blocker is unchanged too.
\<close>

theorem clear_requires_marketing:
  "active b \<Longrightarrow> saved_for b ty = Some saved \<Longrightarrow>
   (marketing (consent b) \<longrightarrow>
      call_clear ty now (b, pg) = (b, set_area ty (clear saved (area ty pg)) pg)) \<and>
   (\<not> marketing (consent b) \<longrightarrow>
      snd (call_clear ty now (b, pg)) = pg \<and>
      (queueOperations (config b) \<noteq> Some False \<longrightarrow>
         fst (call_clear ty now (b, pg)) = queueOperation b (clearOperation ty now) \<and>
         last (queue (fst (call_clear ty now (b, pg)))) = clearOperation ty now \<and>
         op_category (clearOperation ty now) = Marketing) \<and>
      (queueOperations (config b) = Some False \<longrightarrow> fst (call_clear ty now (b, pg)) = b))"
  by (simp add: call_clear_def wrapped_clear_def hasConsent_def set_area_area clearOperation_def
      queue_queueOperation)

lemma demoStored_facts:
  "active (fst demoStored)"
  "saved_for (fst demoStored) LocalStorage = Some nativeMethods"
  "\<not> marketing (consent (fst demoStored))"
  "queueOperations (config (fst demoStored)) \<noteq> Some False"
  "localStorage (snd demoStored) ''cookiepot_visitor_id'' = Some ''v-1''"
  "length (queue (fst demoStored)) = 3"
  by (simp_all add: demoStored_def demo_defs nativeMethods_def)

theorem clear_requires_marketing_witness:
  "active (fst demoStored) \<and> saved_for (fst demoStored) LocalStorage = Some nativeMethods \<and>
   \<not> marketing (consent (fst demoStored)) \<and>
   queueOperations (config (fst demoStored)) \<noteq> Some False \<and>
   localStorage (snd demoStored) ''cookiepot_visitor_id'' = Some ''v-1'' \<and>
   localStorage (snd (call_clear LocalStorage 5 demoStored)) ''cookiepot_visitor_id'' = Some ''v-1'' \<and>
   last (queue (fst (call_clear LocalStorage 5 demoStored))) = clearOperation LocalStorage 5"
  using clear_requires_marketing [of "fst demoStored" LocalStorage nativeMethods 5 "snd demoStored"]
    demoStored_facts
  by (simp add: queue_queueOperation)

text \<open>
  Claim C9. After \<open>stop\<close> on an active blocker both sets of saved methods are null. An
  \<open>updateConsent\<close> that follows removes from the queue every operation whose category it
  grants and executes none: both storage areas stay as they are.
\<close>

theorem stopped_blocker_discards:
  "active b \<Longrightarrow>
   origLocal (stop b) = None \<and> origSession (stop b) = None \<and>
   updateConsent c (stop b, pg) =
     ((stop b)\<lparr>consent := c, queue := filter (\<lambda>operation. \<not> satisfied c operation) (queue b)\<rparr>, pg)"
proof -
  assume a: "active b"
  have n: "origLocal (stop b) = None" "origSession (stop b) = None" and q: "queue (stop b) = queue b"
    using a by (simp_all add: stop_def)
  have "foldl (\<lambda>p operation. executeOperation (stop b) operation p) pg xs = pg" for xs
    by (rule foldl_unchanged) (simp add: executeOperation_none n)
  then show ?thesis by (simp add: updateConsent_eq n q)
qed

theorem stopped_blocker_discards_witness:
  "active (fst demoQueued) \<and>
   map op_key (queue (fst demoQueued)) = [Some ''_ga_1'', Some ''unknown_tracker'', Some ''theme''] \<and>
   satisfied grantAnalytics (hd (queue (fst demoQueued))) \<and>
   map op_key (queue (fst (updateConsent grantAnalytics (stop (fst demoQueued), snd demoQueued)))) =
     [Some ''unknown_tracker'', Some ''theme''] \<and>
   snd (updateConsent grantAnalytics (stop (fst demoQueued), snd demoQueued)) = snd demoQueued \<and>
   localStorage (snd (updateConsent grantAnalytics (stop (fst demoQueued), snd demoQueued))) ''_ga_1'' = None"
  using stopped_blocker_discards [of "fst demoQueued" grantAnalytics "snd demoQueued"]
  by (simp add: demoQueued_saved demoQueued_queue demoQueued_page satisfied_def grantAnalytics_def
      emptyPage_def)

section \<open>The two classifiers\<close>

lemma str_includes_sublist: "str_includes t p \<longleftrightarrow> sublist p t"
  by (induction t) (simp_all add: sublist_Cons_right)

lemma categorizeIn_first:
  "\<forall>q\<in>set ps. \<not> keyMatches (pattern q) k \<Longrightarrow> keyMatches (pattern p) k \<Longrightarrow>
   categorizeIn (ps @ p # qs) k = category p"
  by (induction ps) simp_all

lemma categorizeIn_none:
  "\<forall>q\<in>set ps. \<not> keyMatches (pattern q) k \<Longrightarrow> categorizeIn ps k = Marketing"
  by (induction ps) simp_all

lemma matchIn_first:
  "\<forall>q\<in>set ps. \<not> scriptMatches mk q a c \<Longrightarrow> scriptMatches mk p a c \<Longrightarrow>
   matchIn mk (ps @ p # qs) a c = Some (script_category p)"
  by (induction ps) simp_all

lemma matchIn_none:
  "\<forall>q\<in>set ps. \<not> scriptMatches mk q a c \<Longrightarrow> matchIn mk ps a c = None"
  by (induction ps) simp_all

lemma content_text:
  "(if textContent script \<noteq> [] then textContent script else innerHTML script) = textContent script"
  by (simp add: innerHTML_def)

text \<open>
  Claim C4, as the code has it. In the storage classifier a literal pattern matches a key
  that equals it or starts with it, and a regular expression matches by its \<open>test\<close>. In
  the script classifier the text of every pattern, literal or the source of a regular
  expression, is compiled as a case-insensitive regular expression and searched for in the
  address or the inline text; when it does not compile, the pattern matches where the
  lower-cased text contains the lower-cased pattern. In both classifiers the patterns are
  tried in the order of the table and the first that matches gives the category.
\<close>

theorem classifiers_first_match:
  "(keyMatches (Str s) k \<longleftrightarrow> k = s \<or> prefix s k) \<and>
   (keyMatches (Rx r) k \<longleftrightarrow> test r k) \<and>
   (\<forall>ps p qs. patterns b = ps @ p # qs \<and> (\<forall>q\<in>set ps. \<not> keyMatches (pattern q) k) \<and>
       keyMatches (pattern p) k \<longrightarrow> categorizeKey b k = category p) \<and>
   (\<forall>f. mk pat = Some f \<longrightarrow> matchesPattern mk txt pat = f txt) \<and>
   (mk pat = None \<longrightarrow>
      matchesPattern mk txt pat = sublist (toLowerCase pat) (toLowerCase txt)) \<and>
   (scriptMatches mk \<lparr>script_pattern = Str s, script_category = c\<rparr> address content \<longleftrightarrow>
      (address \<noteq> [] \<and> matchesPattern mk address s) \<or>
      (content \<noteq> [] \<and> matchesPattern mk content s)) \<and>
   (scriptMatches mk \<lparr>script_pattern = Rx r, script_category = c\<rparr> address content \<longleftrightarrow>
      (address \<noteq> [] \<and> matchesPattern mk address (source r)) \<or>
      (content \<noteq> [] \<and> matchesPattern mk content (source r))) \<and>
   (\<forall>ps p qs. script_patterns sb = ps @ p # qs \<and>
       (\<forall>q\<in>set ps. \<not> scriptMatches mk q (src script) (textContent script)) \<and>
       scriptMatches mk p (src script) (textContent script) \<longrightarrow>
       matchScriptToCategory mk sb script = Some (script_category p))"
proof -
  have a: "categorizeKey b k = category p"
    if "patterns b = ps @ p # qs" "\<forall>q\<in>set ps. \<not> keyMatches (pattern q) k"
      "keyMatches (pattern p) k" for ps p qs
    using that by (simp add: categorizeKey_def categorizeIn_first)
  have m: "matchScriptToCategory mk sb script = Some (script_category p)"
    if "script_patterns sb = ps @ p # qs"
      "\<forall>q\<in>set ps. \<not> scriptMatches mk q (src script) (textContent script)"
      "scriptMatches mk p (src script) (textContent script)" for ps p qs
    using that by (simp add: matchScriptToCategory_def content_text matchIn_first)
  have s1: "keyMatches (Str s) k \<longleftrightarrow> k = s \<or> prefix s k"
    and s2: "keyMatches (Rx r) k \<longleftrightarrow> test r k"
    by (simp_all add: startsWith_def)
  have m1: "\<forall>f. mk pat = Some f \<longrightarrow> matchesPattern mk txt pat = f txt"
    and m2: "mk pat = None \<longrightarrow>
      matchesPattern mk txt pat = sublist (toLowerCase pat) (toLowerCase txt)"
    by (simp_all add: matchesPattern_def str_includes_sublist)
  have m3: "scriptMatches mk \<lparr>script_pattern = Str s, script_category = c\<rparr> address content \<longleftrightarrow>
      (address \<noteq> [] \<and> matchesPattern mk address s) \<or>
      (content \<noteq> [] \<and> matchesPattern mk content s)"
    and m4: "scriptMatches mk \<lparr>script_pattern = Rx r, script_category = c\<rparr> address content \<longleftrightarrow>
      (address \<noteq> [] \<and> matchesPattern mk address (source r)) \<or>
      (content \<noteq> [] \<and> matchesPattern mk content (source r))"
    by (simp_all add: scriptMatches_def matcher_of_def Let_def)
  from a m s1 s2 m1 m2 m3 m4 show ?thesis by blast
qed

lemmas string_defs = startsWith_def toLowerCase_def lower_char_def alnum_def

lemma plain_analytics:
  "plainRegExp ''analytics'' = Some (\<lambda>txt. str_includes (toLowerCase txt) (toLowerCase ''analytics''))"
  by (simp add: plainRegExp_def alnum_def)

lemma plain_facebook:
  "plainRegExp ''facebook'' = Some (\<lambda>txt. str_includes (toLowerCase txt) (toLowerCase ''facebook''))"
  by (simp add: plainRegExp_def alnum_def)

lemma demo_analytics_matches:
  "scriptMatches plainRegExp \<lparr>script_pattern = Str ''analytics'', script_category = Analytics\<rparr>
     ''https://example.com/analytics.js'' []"
  by (simp add: scriptMatches_def matcher_of_def matchesPattern_def plain_analytics
      toLowerCase_def lower_char_def Let_def)

theorem classifiers_first_match_witness:
  "patterns (fst demoQueued) = [] @ hd (patterns (fst demoQueued)) # tl (patterns (fst demoQueued)) \<and>
   keyMatches (pattern (hd (patterns (fst demoQueued)))) ''_ga_1'' \<and>
   categorizeKey (fst demoQueued) ''_ga_1'' = Analytics \<and>
   plainRegExp ''analytics'' \<noteq> None \<and>
   matchesPattern plainRegExp ''https://example.com/ANALYTICS.js'' ''analytics'' \<and>
   plainRegExp ''[invalid(regex'' = None \<and>
   matchesPattern plainRegExp ''log([invalid(regex)'' ''[invalid(regex'' \<and>
   matchScriptToCategory plainRegExp demoScripts (scriptAt ''https://example.com/analytics.js'') =
     Some Analytics"
proof -
  note t = classifiers_first_match [where b = "fst demoQueued" and k = "''_ga_1''"]
  have p: "patterns (fst demoQueued) =
      [] @ hd (patterns (fst demoQueued)) # tl (patterns (fst demoQueued))"
    and k: "keyMatches (pattern (hd (patterns (fst demoQueued)))) ''_ga_1''"
    by (simp_all add: demoQueued_def call_setItem_def wrapped_setItem_def start_def
        new_StorageBlocker_def demoConfig_def defaultConsent_def emptyPage_def saved_for_def
        isAllowed_def anchored_def categorizeKey_def defaultStoragePatterns_def builtin_def
        hasConsent_def queueOperation_def area_def set_area_def startsWith_def)
  have c: "categorizeKey (fst demoQueued) ''_ga_1'' = category (hd (patterns (fst demoQueued)))"
    by (rule t [THEN conjunct2, THEN conjunct2, THEN conjunct1, rule_format,
          of "[]" "hd (patterns (fst demoQueued))" "tl (patterns (fst demoQueued))"])
      (use p k in simp)
  have a: "category (hd (patterns (fst demoQueued))) = Analytics"
    by (simp add: demoQueued_def call_setItem_def wrapped_setItem_def start_def
        new_StorageBlocker_def demoConfig_def defaultConsent_def emptyPage_def saved_for_def
        isAllowed_def anchored_def categorizeKey_def defaultStoragePatterns_def builtin_def
        hasConsent_def queueOperation_def area_def set_area_def startsWith_def)
  have r1: "plainRegExp ''analytics'' \<noteq> None"
    by (simp add: plain_analytics)
  have r2: "matchesPattern plainRegExp ''https://example.com/ANALYTICS.js'' ''analytics''"
    by (simp add: matchesPattern_def plain_analytics toLowerCase_def lower_char_def)
  have r3: "plainRegExp ''[invalid(regex'' = None"
    by (simp add: plainRegExp_def alnum_def)
  have r4: "matchesPattern plainRegExp ''log([invalid(regex)'' ''[invalid(regex''"
    by (simp add: matchesPattern_def r3 toLowerCase_def lower_char_def)
  have r5: "matchScriptToCategory plainRegExp demoScripts
      (scriptAt ''https://example.com/analytics.js'') = Some Analytics"
    by (simp add: matchScriptToCategory_def demoScripts_def new_ScriptAutoBlocker_def scriptAt_def
        src_def innerHTML_def demo_analytics_matches)
  have c': "categorizeKey (fst demoQueued) ''_ga_1'' = Analytics"
    using c a by simp
  show ?thesis
    by (intro conjI p k c' r1 r2 r3 r4 r5)
qed

text \<open>
  The script classifier does not match literal patterns by equality or prefix: the literal
  \<open>analytics\<close> classifies a script whose address merely contains it.
\<close>

theorem script_literal_containment_counterexample:
  "matchScriptToCategory plainRegExp demoScripts (scriptAt ''https://example.com/analytics.js'') =
     Some Analytics \<and>
   textContent (scriptAt ''https://example.com/analytics.js'') = [] \<and>
   \<not> (''https://example.com/analytics.js'' = ''analytics'' \<or>
       startsWith ''https://example.com/analytics.js'' ''analytics'')"
  by (simp add: matchScriptToCategory_def demoScripts_def new_ScriptAutoBlocker_def scriptAt_def
      src_def innerHTML_def demo_analytics_matches startsWith_def)

lemma setAttribute_frame:
  "textContent (setAttribute n v el) = textContent el"
  "map_of (attributes (setAttribute n v el)) = (map_of (attributes el))(n \<mapsto> v)"
  "hasAttribute (setAttribute n v el) n"
  by (simp_all add: setAttribute_def hasAttribute_def update_conv')

text \<open>
  Claim C5. A storage key that no pattern of the storage table matches is classified as
  marketing. A script whose address and inline text match no pattern of the script table
  gets no category: \<open>handleScriptTag\<close> records nothing for it and leaves it as it is,
  apart from the marker \<open>data-cookiepot-processed\<close> (a script that already carries the
  marker is not touched at all).
\<close>

theorem unmatched_defaults:
  "((\<forall>p\<in>set (patterns b). \<not> keyMatches (pattern p) k) \<longrightarrow> categorizeKey b k = Marketing) \<and>
   ((\<forall>p\<in>set (script_patterns sb). \<not> scriptMatches mk p (src script) (textContent script)) \<longrightarrow>
      matchScriptToCategory mk sb script = None \<and>
      handleScriptTag mk r (sb, script) =
        (sb, if hasAttribute script ''data-cookiepot-processed'' then script
             else setAttribute ''data-cookiepot-processed'' ''true'' script) \<and>
      textContent (snd (handleScriptTag mk r (sb, script))) = textContent script \<and>
      hasAttribute (snd (handleScriptTag mk r (sb, script))) ''data-cookiepot-processed'' \<and>
      (\<forall>n. n \<noteq> ''data-cookiepot-processed'' \<longrightarrow>
         map_of (attributes (snd (handleScriptTag mk r (sb, script)))) n =
         map_of (attributes script) n))"
proof -
  have s: "categorizeKey b k = Marketing"
    if "\<forall>p\<in>set (patterns b). \<not> keyMatches (pattern p) k"
    using that by (simp add: categorizeKey_def categorizeIn_none)
  have m: "matchScriptToCategory mk sb script = None"
    if "\<forall>p\<in>set (script_patterns sb). \<not> scriptMatches mk p (src script) (textContent script)"
    using that by (simp add: matchScriptToCategory_def content_text matchIn_none)
  have h: "handleScriptTag mk r (sb, script) =
        (sb, if hasAttribute script ''data-cookiepot-processed'' then script
             else setAttribute ''data-cookiepot-processed'' ''true'' script)"
    if "matchScriptToCategory mk sb script = None"
    using that by (simp add: handleScriptTag_def)
  have f: "textContent e' = textContent script \<and> hasAttribute e' ''data-cookiepot-processed'' \<and>
      (\<forall>n. n \<noteq> ''data-cookiepot-processed'' \<longrightarrow>
         map_of (attributes e') n = map_of (attributes script) n)"
    if "e' = (if hasAttribute script ''data-cookiepot-processed'' then script
              else setAttribute ''data-cookiepot-processed'' ''true'' script)" for e'
    using that by (simp add: setAttribute_frame)
  show ?thesis
  proof (intro conjI impI)
    assume "\<forall>p\<in>set (patterns b). \<not> keyMatches (pattern p) k"
    then show "categorizeKey b k = Marketing" by (rule s)
  next
    assume a: "\<forall>p\<in>set (script_patterns sb). \<not> scriptMatches mk p (src script) (textContent script)"
    show "matchScriptToCategory mk sb script = None" by (rule m [OF a])
    show e: "handleScriptTag mk r (sb, script) =
        (sb, if hasAttribute script ''data-cookiepot-processed'' then script
             else setAttribute ''data-cookiepot-processed'' ''true'' script)"
      by (rule h [OF m [OF a]])
    show "textContent (snd (handleScriptTag mk r (sb, script))) = textContent script"
      and "hasAttribute (snd (handleScriptTag mk r (sb, script))) ''data-cookiepot-processed''"
      and "\<forall>n. n \<noteq> ''data-cookiepot-processed'' \<longrightarrow>
         map_of (attributes (snd (handleScriptTag mk r (sb, script)))) n =
         map_of (attributes script) n"
      using f [of "snd (handleScriptTag mk r (sb, script))"] e by simp_all
  qed
qed

lemma demo_no_key_match:
  "\<forall>p\<in>set (patterns (fst demoQueued)). \<not> keyMatches (pattern p) ''unknown_tracker''"
  by (simp add: demoQueued_def call_setItem_def wrapped_setItem_def start_def
      new_StorageBlocker_def demoConfig_def defaultConsent_def emptyPage_def saved_for_def
      isAllowed_def anchored_def categorizeKey_def defaultStoragePatterns_def builtin_def
      hasConsent_def queueOperation_def area_def set_area_def startsWith_def)

lemma demo_no_script_match:
  "\<forall>p\<in>set (script_patterns demoScripts).
     \<not> scriptMatches plainRegExp p (src (scriptAt ''https://example.com/app.js''))
         (textContent (scriptAt ''https://example.com/app.js''))"
  by (simp add: demoScripts_def new_ScriptAutoBlocker_def scriptAt_def src_def scriptMatches_def
      matcher_of_def matchesPattern_def plain_analytics plain_facebook toLowerCase_def
      lower_char_def Let_def)

theorem unmatched_defaults_witness:
  "categorizeKey (fst demoQueued) ''unknown_tracker'' = Marketing \<and>
   matchScriptToCategory plainRegExp demoScripts (scriptAt ''https://example.com/app.js'') = None \<and>
   handleScriptTag plainRegExp 0 (demoScripts, scriptAt ''https://example.com/app.js'') =
     (demoScripts,
      \<lparr>attributes = [(''src'', ''https://example.com/app.js''), (''data-cookiepot-processed'', ''true'')],
       textContent = []\<rparr>)"
  using unmatched_defaults [of "fst demoQueued" "''unknown_tracker''" demoScripts plainRegExp
      "scriptAt ''https://example.com/app.js''" 0]
    demo_no_key_match demo_no_script_match
  by (simp add: scriptAt_def hasAttribute_def setAttribute_def)

section \<open>Persistence layer: loading\<close>

lemma schema_sound:
  "ConsentStateSchema j = Some r \<Longrightarrow>
   necessary (categories r) \<and> visitorId r \<noteq> [] \<and> sessionId r \<noteq> []"
  by (auto simp: ConsentStateSchema_def ConsentCategoriesSchema_def id_field_def
      split: json.splits option.splits if_splits bool.splits)

lemma parseRecord_Some:
  "parseRecord h txt = Inr (Some r) \<Longrightarrow> \<exists>j. JSON_parse h txt = Some j \<and> ConsentStateSchema j = Some r"
  by (auto simp: parseRecord_def split: option.splits)

lemma parseRecord_not_Some:
  "(\<forall>r. parseRecord h txt \<noteq> Inr (Some r)) \<longleftrightarrow>
   (JSON_parse h txt = None \<or> (\<exists>j. JSON_parse h txt = Some j \<and> ConsentStateSchema j = None))"
  by (auto simp: parseRecord_def split: option.splits)

lemma load_cases:
  "getConsentFromStorage h env =
     (case cookieRecord h env of
        Some r \<Rightarrow> Inr (Some r)
      | None \<Rightarrow>
          (case getCookie h CONSENT env of
             Inl e \<Rightarrow> Inr None
           | Inr None \<Rightarrow> Inr (localRecord h env)
           | Inr (Some v) \<Rightarrow>
               if v = [] then Inr (localRecord h env)
               else (case parseRecord h v of Inl e \<Rightarrow> Inr None | Inr x \<Rightarrow> Inr (localRecord h env))))"
  by (auto simp: getConsentFromStorage_def getConsentFromStorage_try_def cookieRecord_def
      localRecord_def split: sum.splits option.splits)

lemma localRecord_Some:
  "localRecord h env = Some r \<Longrightarrow> \<exists>j. ConsentStateSchema j = Some r"
  by (auto simp: localRecord_def readLocal_def dest: parseRecord_Some
      split: sum.splits option.splits StorageAccess.splits if_splits)

lemma cookieRecord_Some:
  "cookieRecord h env = Some r \<Longrightarrow> \<exists>j. ConsentStateSchema j = Some r"
  by (auto simp: cookieRecord_def dest: parseRecord_Some
      split: sum.splits option.splits if_splits)

text \<open>
  Claim C8. \<open>getConsentFromStorage\<close> never throws. When neither the cookie nor the
  fallback store yields a valid record (the entry is absent, empty, not parseable, or fails
  the schema) it returns null. A valid record in the cookie is returned whatever the
  fallback store holds; a record returned from the fallback store means the cookie yielded
  none. A returned record always passed the schema, so it is never partially valid.
\<close>

theorem load_never_throws:
  "(\<exists>r. getConsentFromStorage h env = Inr r) \<and>
   (cookieRecord h env = None \<and> localRecord h env = None \<longrightarrow>
      getConsentFromStorage h env = Inr None) \<and>
   (\<forall>r. cookieRecord h env = Some r \<longrightarrow> getConsentFromStorage h env = Inr (Some r)) \<and>
   (\<forall>r. getConsentFromStorage h env = Inr (Some r) \<longrightarrow>
      (cookieRecord h env = Some r \<or> cookieRecord h env = None \<and> localRecord h env = Some r) \<and>
      (\<exists>j. ConsentStateSchema j = Some r) \<and>
      necessary (categories r) \<and> visitorId r \<noteq> [] \<and> sessionId r \<noteq> []) \<and>
   (\<forall>s. localStore env = Area s \<longrightarrow>
      (localRecord h env = None \<longleftrightarrow>
         (case s CONSENT of
            None \<Rightarrow> True
          | Some txt \<Rightarrow> txt = [] \<or> JSON_parse h txt = None \<or>
              (\<exists>j. JSON_parse h txt = Some j \<and> ConsentStateSchema j = None)))) \<and>
   (localStore env = Unavailable \<or> localStore env = Throws \<longrightarrow> localRecord h env = None) \<and>
   (cookieRecord h env = None \<longleftrightarrow>
      (case getCookie h CONSENT env of
         Inl e \<Rightarrow> True
       | Inr None \<Rightarrow> True
       | Inr (Some txt) \<Rightarrow> txt = [] \<or> JSON_parse h txt = None \<or>
           (\<exists>j. JSON_parse h txt = Some j \<and> ConsentStateSchema j = None)))"
proof -
  have a: "\<exists>r. getConsentFromStorage h env = Inr r"
    by (simp add: getConsentFromStorage_def split: sum.splits)
  have b: "getConsentFromStorage h env = Inr None"
    if "cookieRecord h env = None" "localRecord h env = None"
    using that by (simp add: load_cases split: sum.splits option.splits)
  have c: "getConsentFromStorage h env = Inr (Some r)" if "cookieRecord h env = Some r" for r
    using that by (simp add: load_cases)
  have d: "cookieRecord h env = Some r \<or> cookieRecord h env = None \<and> localRecord h env = Some r"
    if "getConsentFromStorage h env = Inr (Some r)" for r
    using that by (auto simp: load_cases split: sum.splits option.splits if_splits)
  have e: "(\<exists>j. ConsentStateSchema j = Some r) \<and>
      necessary (categories r) \<and> visitorId r \<noteq> [] \<and> sessionId r \<noteq> []"
    if "getConsentFromStorage h env = Inr (Some r)" for r
    using d [OF that] cookieRecord_Some localRecord_Some schema_sound by blast
  have f: "localRecord h env = None \<longleftrightarrow>
         (case s CONSENT of
            None \<Rightarrow> True
          | Some txt \<Rightarrow> txt = [] \<or> JSON_parse h txt = None \<or>
              (\<exists>j. JSON_parse h txt = Some j \<and> ConsentStateSchema j = None))"
    if "localStore env = Area s" for s
    using that
    by (auto simp: localRecord_def readLocal_def parseRecord_def split: option.splits sum.splits)
  have g: "localRecord h env = None" if "localStore env = Unavailable \<or> localStore env = Throws"
    using that by (auto simp: localRecord_def readLocal_def)
  have i: "cookieRecord h env = None \<longleftrightarrow>
      (case getCookie h CONSENT env of
         Inl e \<Rightarrow> True
       | Inr None \<Rightarrow> True
       | Inr (Some txt) \<Rightarrow> txt = [] \<or> JSON_parse h txt = None \<or>
           (\<exists>j. JSON_parse h txt = Some j \<and> ConsentStateSchema j = None))"
    by (auto simp: cookieRecord_def parseRecord_def split: option.splits sum.splits)
  from a b c d e f g i show ?thesis by blast
qed

lemmas load_defs =
  getConsentFromStorage_def getConsentFromStorage_try_def getCookie_def document_cookie_def
  readLocal_def demoBrowser_def CONSENT_def

lemma demoRecord_valid: "ConsentStateSchema (state_json demoRecord) = Some demoRecord"
  by (simp add: ConsentStateSchema_def ConsentCategoriesSchema_def id_field_def bool_field_def
      state_json_def categories_json_def demoRecord_def grantAnalytics_def demoNow_def)

lemma demoHost_parse:
  "parseRecord demoHost demoText = Inr (Some demoRecord)"
  "parseRecord demoHost ''garbage'' = Inl ''SyntaxError''"
  "parseRecord demoHost ''{}'' = Inr None"
  "decodeURIComponent demoHost = Some"
  by (simp_all add: parseRecord_def demoHost_def demoRecord_valid)
    (simp_all add: demoText_def ConsentStateSchema_def id_field_def)

lemma demoText_not_empty: "demoText \<noteq> []"
  by (simp add: demoText_def)

lemma demoCookie_read: "getCookie demoHost CONSENT demoCookie = Inr (Some demoText)"
  by (simp add: demoCookie_def load_defs demoHost_parse demoText_def)

lemma demoCookie_record: "cookieRecord demoHost demoCookie = Some demoRecord"
  by (simp add: cookieRecord_def demoCookie_read demoText_not_empty demoHost_parse)

lemma demoCorrupt_read: "getCookie demoHost CONSENT demoCorrupt = Inr (Some ''garbage'')"
  by (simp add: demoCorrupt_def load_defs demoHost_parse)

lemma demoCorrupt_records:
  "cookieRecord demoHost demoCorrupt = None" "localRecord demoHost demoCorrupt = None"
  by (simp_all add: cookieRecord_def localRecord_def demoCorrupt_read demoHost_parse readLocal_def)
    (simp add: demoCorrupt_def demoBrowser_def demoHost_parse)

lemma demoFallback_load: "getConsentFromStorage demoHost demoFallback = Inr (Some demoRecord)"
  by (simp add: demoFallback_def load_defs demoText_not_empty demoHost_parse)

theorem load_never_throws_witness:
  "cookieRecord demoHost demoCorrupt = None \<and> localRecord demoHost demoCorrupt = None \<and>
   getConsentFromStorage demoHost demoCorrupt = Inr None \<and>
   cookieRecord demoHost demoCookie = Some demoRecord \<and>
   getConsentFromStorage demoHost demoCookie = Inr (Some demoRecord) \<and>
   localStore demoFallback = Area [CONSENT \<mapsto> demoText] \<and>
   getConsentFromStorage demoHost demoFallback = Inr (Some demoRecord)"
proof -
  have 1: "getConsentFromStorage demoHost demoCorrupt = Inr None"
    using load_never_throws [of demoHost demoCorrupt] demoCorrupt_records by simp
  have 2: "getConsentFromStorage demoHost demoCookie = Inr (Some demoRecord)"
    using load_never_throws [of demoHost demoCookie] demoCookie_record by simp
  have 3: "getConsentFromStorage demoHost demoFallback = Inr (Some demoRecord)"
    by (rule demoFallback_load)
  have 4: "localStore demoFallback = Area [CONSENT \<mapsto> demoText]"
    by (simp add: demoFallback_def)
  show ?thesis
    by (intro conjI demoCorrupt_records 1 demoCookie_record 2 3 4)
qed

section \<open>Consent orchestrator\<close>

lemma emit_eq: "emit em ev d env = env\<lparr>trace := trace env @ notifyEffects em ev d\<rparr>"
proof -
  have "foldl (\<lambda>e handler. effect (Deliver handler ev d) e) env hs =
      env\<lparr>trace := trace env @ map (\<lambda>handler. Deliver handler ev d) hs\<rparr>" for hs
    by (induction hs arbitrary: env) (simp_all add: effect_def)
  then show ?thesis by (simp add: emit_def notifyEffects_def)
qed

lemma google_eq:
  "(case g of Some m \<Rightarrow> google_updateConsent m c env | None \<Rightarrow> env) =
     env\<lparr>trace := trace env @ signalEffects g c env\<rparr>"
  by (simp add: google_updateConsent_def signalEffects_def effect_def split: option.splits)

lemma save_eq:
  "saveConsentToStorage h st \<lparr>domain = d, maxAge = Some age\<rparr> env =
     env\<lparr>cookies := (if has_document env
                      then cookie_assign CONSENT (encodeURIComponent h (JSON_stringify h (state_json st)))
                             (Some age) (cookies env)
                      else cookies env),
          localStore := store_put (localStore env) CONSENT (JSON_stringify h (state_json st)),
          trace := trace env @ persistEffects h (JSON_stringify h (state_json st)) age env\<rparr>"
  by (simp add: saveConsentToStorage_def setCookie_def effect_def persistEffects_def Let_def
      store_put_def storeEffects_def split: StorageAccess.splits)

lemma clear_eq:
  "clearConsentFromStorage h d env =
     env\<lparr>cookies := (if has_document env then AList.delete CONSENT (cookies env) else cookies env),
          localStore := store_remove (localStore env) CONSENT,
          trace := trace env @ clearEffects h env\<rparr>"
  by (simp add: clearConsentFromStorage_def setCookie_def effect_def clearEffects_def Let_def
      cookie_assign_def store_remove_def storeEffects_def split: StorageAccess.splits)

lemma merged_eq:
  "\<lparr>necessary = True,
    analytics = nullish (p_analytics cats) (analytics (consentState client)),
    marketing = nullish (p_marketing cats) (marketing (consentState client)),
    preferences = nullish (p_preferences cats) (preferences (consentState client))\<rparr> =
   mergedState cats client"
  by (simp add: mergedState_def split: option.splits)

lemma signalEffects_frame:
  "signalEffects g c (env\<lparr>cookies := x\<rparr>) = signalEffects g c env"
  "signalEffects g c (env\<lparr>localStore := y\<rparr>) = signalEffects g c env"
  "signalEffects g c (env\<lparr>trace := z\<rparr>) = signalEffects g c env"
  "signalEffects g c (env\<lparr>document := w\<rparr>) = signalEffects g c env"
  by (simp_all add: signalEffects_def split: option.splits)

text \<open>
  The script blocker reads and writes the document and adds to the trace; it does the
  same in every browser that has this document.
\<close>

lemma executeBlockedScript_frame:
  "executeBlockedScript s env =
     env\<lparr>document := document (executeBlockedScript s (domOnly (document env))),
          trace := trace env @ trace (executeBlockedScript s (domOnly (document env)))\<rparr>"
  by (simp add: executeBlockedScript_def domOnly_def effect_def Let_def split: option.splits)

lemma foldl_execute_frame:
  "foldl (\<lambda>e s. executeBlockedScript s e) env ss =
     env\<lparr>document := document (foldl (\<lambda>e s. executeBlockedScript s e) (domOnly (document env)) ss),
          trace := trace env @ trace (foldl (\<lambda>e s. executeBlockedScript s e) (domOnly (document env)) ss)\<rparr>"
proof (induction ss arbitrary: env)
  case Nil
  show ?case by (simp add: domOnly_def)
next
  case (Cons s ss)
  let ?f = "\<lambda>e s. executeBlockedScript s e"
  let ?d = "document env"
  let ?e1 = "executeBlockedScript s env"
  let ?b1 = "executeBlockedScript s (domOnly ?d)"
  have d1: "document ?e1 = document ?b1" and t1: "trace ?e1 = trace env @ trace ?b1"
    and o1: "?e1\<lparr>document := x, trace := y\<rparr> = env\<lparr>document := x, trace := y\<rparr>" for x y
    by (subst executeBlockedScript_frame, simp)+
  have a: "foldl ?f ?e1 ss =
      ?e1\<lparr>document := document (foldl ?f (domOnly (document ?e1)) ss),
           trace := trace ?e1 @ trace (foldl ?f (domOnly (document ?e1)) ss)\<rparr>"
    by (rule Cons.IH)
  have b: "foldl ?f ?b1 ss =
      ?b1\<lparr>document := document (foldl ?f (domOnly (document ?b1)) ss),
           trace := trace ?b1 @ trace (foldl ?f (domOnly (document ?b1)) ss)\<rparr>"
    by (rule Cons.IH)
  have "foldl ?f env (s # ss) = foldl ?f ?e1 ss" by simp
  also have "\<dots> = env\<lparr>document := document (foldl ?f (domOnly (document ?b1)) ss),
      trace := trace env @ trace ?b1 @ trace (foldl ?f (domOnly (document ?b1)) ss)\<rparr>"
    by (subst a) (simp add: d1 t1 o1)
  also have "\<dots> = env\<lparr>document := document (foldl ?f ?b1 ss),
      trace := trace env @ trace (foldl ?f ?b1 ss)\<rparr>"
  proof -
    have "document (foldl ?f ?b1 ss) = document (foldl ?f (domOnly (document ?b1)) ss)"
      and "trace (foldl ?f ?b1 ss) = trace ?b1 @ trace (foldl ?f (domOnly (document ?b1)) ss)"
      by (subst b, simp)+
    then show ?thesis by simp
  qed
  finally show ?case by simp
qed

lemma script_updateConsent_frame:
  "script_updateConsent c (sb, env) =
     (fst (scriptConsumer c sb (document env)),
      env\<lparr>document := fst (snd (scriptConsumer c sb (document env))),
           trace := trace env @ snd (snd (scriptConsumer c sb (document env)))\<rparr>)"
proof -
  have n: "env\<lparr>document := document env, trace := trace env\<rparr> = env" by simp
  have m: "document (domOnly d) = d" "trace (domOnly d) = []" for d
    by (simp_all add: domOnly_def)
  show ?thesis
    by (simp add: scriptConsumer_def script_updateConsent_def unblockScripts_def Let_def m
        foldl_execute_frame [of env] split: prod.splits)
qed

lemma scriptConsumer_consent: "script_consent (fst (scriptConsumer c sb d)) = c"
  by (simp add: scriptConsumer_def script_updateConsent_def unblockScripts_def Let_def
      split: prod.splits)

lemma execute_only_replaces:
  "\<forall>x\<in>set (trace env). \<exists>n old. x = ReplaceChild n old \<Longrightarrow>
   \<forall>x\<in>set (trace (foldl (\<lambda>e s. executeBlockedScript s e) env ss)). \<exists>n old. x = ReplaceChild n old"
proof (induction ss arbitrary: env)
  case Nil
  then show ?case by simp
next
  case (Cons s ss)
  have "\<forall>x\<in>set (trace (executeBlockedScript s env)). \<exists>n old. x = ReplaceChild n old"
    using Cons.prems
    by (auto simp: executeBlockedScript_def effect_def Let_def split: option.splits)
  then show ?case using Cons.IH by simp
qed

lemma scriptEffects_only_replace:
  "\<forall>x\<in>set (scriptEffects c blocker d). \<exists>n old. x = ReplaceChild n old"
proof (cases blocker)
  case None
  then show ?thesis by (simp add: scriptEffects_def)
next
  case (Some sb)
  have "\<forall>x\<in>set (trace (domOnly d)). \<exists>n old. x = ReplaceChild n old"
    by (simp add: domOnly_def)
  then have "\<forall>x\<in>set (trace (foldl (\<lambda>e s. executeBlockedScript s e) (domOnly d) ss)).
      \<exists>n old. x = ReplaceChild n old" for ss
    by (rule execute_only_replaces)
  then show ?thesis
    using Some
    by (simp add: scriptEffects_def scriptConsumer_def script_updateConsent_def unblockScripts_def
        Let_def domOnly_def [symmetric] split: prod.splits)
      (auto simp: domOnly_def)
qed

lemma setConsent_begin_eq:
  "setConsent_begin h now cats interaction (client, env) =
     (client\<lparr>consentState := mergedState cats client,
             scriptAutoBlocker :=
               map_option (\<lambda>sb. fst (scriptConsumer (mergedState cats client) sb (document env)))
                 (scriptAutoBlocker client)\<rparr>,
      env\<lparr>cookies := (if has_document env
                       then cookie_assign CONSENT (encodeURIComponent h (recordText h now cats client))
                              (Some (cookieMaxAge client)) (cookies env)
                       else cookies env),
           localStore := store_put (localStore env) CONSENT (recordText h now cats client),
           document := scriptDocument (mergedState cats client) (scriptAutoBlocker client) (document env),
           trace := trace env
             @ persistEffects h (recordText h now cats client) (cookieMaxAge client) env
             @ signalEffects (googleConsentMode client) (mergedState cats client) env
             @ scriptEffects (mergedState cats client) (scriptAutoBlocker client) (document env)
             @ notifyEffects (eventEmitter client) Consent_change (PConsent (mergedState cats client))
             @ [Submit (reportRequest cats interaction client)]\<rparr>)"
proof (cases "scriptAutoBlocker client")
  case None
  then show ?thesis
    unfolding setConsent_begin_def merged_eq
    by (simp add: Let_def save_eq google_eq emit_eq effect_def recordText_def reportRequest_def
        signalEffects_frame scriptEffects_def scriptDocument_def)
next
  case (Some sb)
  then show ?thesis
    unfolding setConsent_begin_def merged_eq
    by (simp add: Let_def save_eq google_eq emit_eq effect_def recordText_def reportRequest_def
        signalEffects_frame scriptEffects_def scriptDocument_def script_updateConsent_frame)
qed

lemma setConsent_resume_eq:
  "setConsent_resume outcome (client, env) =
     (client, env\<lparr>trace := trace env @ reportFailure outcome\<rparr>, Fulfilled)"
  by (cases outcome) (simp_all add: setConsent_resume_def reportFailure_def effect_def)

lemma setConsent_eq:
  "setConsent h outcome now cats interaction (client, env) =
     (client\<lparr>consentState := mergedState cats client,
             scriptAutoBlocker :=
               map_option (\<lambda>sb. fst (scriptConsumer (mergedState cats client) sb (document env)))
                 (scriptAutoBlocker client)\<rparr>,
      env\<lparr>cookies := (if has_document env
                       then cookie_assign CONSENT (encodeURIComponent h (recordText h now cats client))
                              (Some (cookieMaxAge client)) (cookies env)
                       else cookies env),
           localStore := store_put (localStore env) CONSENT (recordText h now cats client),
           document := scriptDocument (mergedState cats client) (scriptAutoBlocker client) (document env),
           trace := trace env
             @ persistEffects h (recordText h now cats client) (cookieMaxAge client) env
             @ signalEffects (googleConsentMode client) (mergedState cats client) env
             @ scriptEffects (mergedState cats client) (scriptAutoBlocker client) (document env)
             @ notifyEffects (eventEmitter client) Consent_change (PConsent (mergedState cats client))
             @ [Submit (reportRequest cats interaction client)]
             @ reportFailure outcome\<rparr>,
      Fulfilled)"
  by (simp add: setConsent_def setConsent_begin_eq setConsent_resume_eq)

lemma resetConsent_eq:
  "resetConsent h (client, env) =
     (client\<lparr>consentState := defaultConsent\<rparr>,
      env\<lparr>cookies := (if has_document env then AList.delete CONSENT (cookies env) else cookies env),
           localStore := store_remove (localStore env) CONSENT,
           trace := trace env @ clearEffects h env
             @ notifyEffects (eventEmitter client) Consent_change (PConsent defaultConsent)\<rparr>,
      Fulfilled)"
  by (simp add: resetConsent_def Let_def clear_eq emit_eq defaultConsent_def)

lemma no_Submit_before:
  "\<forall>e\<in>set (persistEffects h v age env @ signalEffects g c env @ scriptEffects c' blocker d
            @ notifyEffects em ev p). \<not> is_Submit e"
  using scriptEffects_only_replace [of c' blocker d]
  by (auto simp: persistEffects_def signalEffects_def notifyEffects_def storeEffects_def is_Submit_def
      split: option.splits StorageAccess.splits if_splits)

lemma no_signal_on_reset:
  "\<forall>e\<in>set (clearEffects h env @ notifyEffects em ev d). \<not> is_Gtag e \<and> \<not> is_Submit e"
  by (auto simp: clearEffects_def notifyEffects_def storeEffects_def is_Gtag_def is_Submit_def
      split: StorageAccess.splits if_splits)

text \<open>
  Claim C1. After \<open>setConsent\<close>, for every current state and every partial update, the
  state of the client has \<open>necessary\<close> true whatever the update supplies for it; each of
  the other categories keeps its prior value when the update omits it and takes the
  supplied value when the update has it.
\<close>

theorem setConsent_merges:
  "necessary (consentState (fst (setConsent h outcome now cats interaction (client, env)))) \<and>
   (\<forall>c. c \<noteq> Necessary \<longrightarrow>
      (partial_get cats c = None \<longrightarrow>
         consent_get (consentState (fst (setConsent h outcome now cats interaction (client, env)))) c =
         consent_get (consentState client) c) \<and>
      (\<forall>v. partial_get cats c = Some v \<longrightarrow>
         consent_get (consentState (fst (setConsent h outcome now cats interaction (client, env)))) c = v))"
proof -
  have s: "consentState (fst (setConsent h outcome now cats interaction (client, env))) =
      mergedState cats client"
    by (simp add: setConsent_eq)
  have "consent_get (mergedState cats client) c =
      (case partial_get cats c of None \<Rightarrow> consent_get (consentState client) c | Some v \<Rightarrow> v)"
    if "c \<noteq> Necessary" for c
    using that by (cases c) (simp_all add: mergedState_def split: option.splits)
  then show ?thesis
    unfolding s by (simp add: mergedState_def)
qed

text \<open>
  Claim C7. The part of \<open>setConsent\<close> that runs before the \<^verbatim>\<open>await\<close> updates the
  state, writes the merged record to both stores, updates the signal adapter and the
  script blocker, notifies the listeners, and only then sends the request to the
  collector: the request is the last effect of that part, and no effect before it is a
  request. The part that runs once the collector has answered changes neither the client
  nor the browser, whatever state it finds them in: it adds the log entry of a failure to
  the trace and nothing else, and the promise is fulfilled either way.
\<close>

theorem setConsent_report_last:
  "(case setConsent_begin h now cats interaction (client, env) of
      (client', env') \<Rightarrow>
        consentState client' = mergedState cats client \<and>
        scriptAutoBlocker client' =
          map_option (\<lambda>sb. fst (scriptConsumer (mergedState cats client) sb (document env)))
            (scriptAutoBlocker client) \<and>
        cookies env' =
          (if has_document env
           then cookie_assign CONSENT (encodeURIComponent h (recordText h now cats client))
                  (Some (cookieMaxAge client)) (cookies env)
           else cookies env) \<and>
        localStore env' = store_put (localStore env) CONSENT (recordText h now cats client) \<and>
        document env' =
          scriptDocument (mergedState cats client) (scriptAutoBlocker client) (document env) \<and>
        trace env' =
          trace env
            @ persistEffects h (recordText h now cats client) (cookieMaxAge client) env
            @ signalEffects (googleConsentMode client) (mergedState cats client) env
            @ scriptEffects (mergedState cats client) (scriptAutoBlocker client) (document env)
            @ notifyEffects (eventEmitter client) Consent_change (PConsent (mergedState cats client))
            @ [Submit (reportRequest cats interaction client)]) \<and>
   (\<forall>e\<in>set (persistEffects h (recordText h now cats client) (cookieMaxAge client) env
             @ signalEffects (googleConsentMode client) (mergedState cats client) env
             @ scriptEffects (mergedState cats client) (scriptAutoBlocker client) (document env)
             @ notifyEffects (eventEmitter client) Consent_change (PConsent (mergedState cats client))).
      \<not> is_Submit e) \<and>
   setConsent_resume outcome (client2, env2) =
     (client2, env2\<lparr>trace := trace env2 @ reportFailure outcome\<rparr>, Fulfilled) \<and>
   (\<forall>e\<in>set (reportFailure outcome). \<exists>msg. e = ConsoleError msg) \<and>
   setConsent h outcome now cats interaction (client, env) =
     setConsent_resume outcome (setConsent_begin h now cats interaction (client, env))"
proof -
  have r: "\<forall>e\<in>set (reportFailure outcome). \<exists>msg. e = ConsoleError msg"
    by (cases outcome) (simp_all add: reportFailure_def)
  show ?thesis
    using r no_Submit_before [of h "recordText h now cats client" "cookieMaxAge client" env
        "googleConsentMode client" "mergedState cats client" "mergedState cats client"
        "scriptAutoBlocker client" "document env" "eventEmitter client" Consent_change
        "PConsent (mergedState cats client)"]
    by (simp add: setConsent_begin_eq setConsent_resume_eq setConsent_def)
qed

text \<open>
  Claim C10. \<open>resetConsent\<close> removes the record from the cookie jar and from the
  fallback store, sets the state to the defaults and notifies the listeners of the change.
  It sends no signal to \<^verbatim>\<open>gtag\<close> and leaves the script blocker, with the consent it
  holds, and the document as they were; the next \<open>setConsent\<close> gives the script blocker
  the new state.
\<close>

theorem resetConsent_skips_consumers:
  "(case resetConsent h (client, env) of
      (client', env', settled) \<Rightarrow>
        settled = Fulfilled \<and>
        consentState client' = defaultConsent \<and>
        (has_document env \<longrightarrow> map_of (cookies env') CONSENT = None) \<and>
        localStore env' = store_remove (localStore env) CONSENT \<and>
        trace env' =
          trace env @ clearEffects h env
            @ notifyEffects (eventEmitter client) Consent_change (PConsent defaultConsent) \<and>
        scriptAutoBlocker client' = scriptAutoBlocker client \<and>
        googleConsentMode client' = googleConsentMode client \<and>
        document env' = document env \<and>
        (\<forall>sb. scriptAutoBlocker client' = Some sb \<longrightarrow>
           (\<exists>sb'. scriptAutoBlocker
                    (fst (setConsent h outcome now cats interaction (client', env'))) = Some sb' \<and>
                  script_consent sb' = mergedState cats client'))) \<and>
   (\<forall>e\<in>set (clearEffects h env
              @ notifyEffects (eventEmitter client) Consent_change (PConsent defaultConsent)).
      \<not> is_Gtag e \<and> \<not> is_Submit e) \<and>
   (\<forall>s. localStore env = Area s \<longrightarrow> store_remove (localStore env) CONSENT = Area (s(CONSENT := None)))"
  using no_signal_on_reset [of h env "eventEmitter client" Consent_change "PConsent defaultConsent"]
  by (simp add: resetConsent_eq setConsent_eq delete_conv' scriptConsumer_consent store_remove_def)

lemma demoBlocked_eq:
  "demoBlocked =
     (demoScripts\<lparr>blockedScripts :=
        [\<lparr>element = 0, blocked_category = Analytics,
          blocked_src = Some ''https://example.com/analytics.js'', blocked_content = None\<rparr>]\<rparr>,
      \<lparr>attributes = [(''type'', ''text/plain''), (''data-cookiepot-blocked'', ''analytics''),
                     (''data-cookiepot-processed'', ''true'')],
       textContent = []\<rparr>)"
proof -
  have m: "matchScriptToCategory plainRegExp demoScripts
      (scriptAt ''https://example.com/analytics.js'') = Some Analytics"
    by (simp add: matchScriptToCategory_def demoScripts_def new_ScriptAutoBlocker_def scriptAt_def
        src_def innerHTML_def demo_analytics_matches)
  have c: "\<not> script_hasConsent demoScripts Analytics" "blockedScripts demoScripts = []"
    by (simp_all add: script_hasConsent_def demoScripts_def new_ScriptAutoBlocker_def
        defaultConsent_def)
  show ?thesis
    unfolding demoBlocked_def handleScriptTag_def
    by (simp add: m c) (simp add: scriptAt_def hasAttribute_def blockScript_def Let_def
        setAttribute_def removeAttribute_def src_def c)
qed

lemma demo_scriptConsumer:
  "scriptConsumer grantAnalytics (fst demoBlocked) (document demoBrowser) =
     (demoScripts\<lparr>blockedScripts := [], script_consent := grantAnalytics\<rparr>,
      \<lparr>elements =
         [0 \<mapsto> snd demoBlocked,
          1 \<mapsto> \<lparr>attributes = [(''type'', ''text/javascript''), (''data-cookiepot-processed'', ''true''),
                               (''src'', ''https://example.com/analytics.js''),
                               (''data-cookiepot-unblocked'', ''true'')],
                 textContent = []\<rparr>],
       attached = [1], fresh = 2\<rparr>,
      [ReplaceChild 1 0])"
proof -
  have d: "document demoBrowser = \<lparr>elements = [0 \<mapsto> snd demoBlocked], attached = [0], fresh = 1\<rparr>"
    by (simp add: demoBrowser_def)
  have s: "script_consent demoScripts = defaultConsent"
    by (simp add: demoScripts_def new_ScriptAutoBlocker_def)
  show ?thesis
    unfolding d
    by (simp add: demoBlocked_eq scriptConsumer_def script_updateConsent_def unblockScripts_def
        executeBlockedScript_def domOnly_def effect_def copyAttributes_def replaceChild_def
        setAttribute_def Let_def s defaultConsent_def grantAnalytics_def)
qed

theorem setConsent_merges_witness:
  "partial_get onlyAnalytics Necessary = Some False \<and>
   partial_get onlyAnalytics Analytics = Some True \<and>
   partial_get onlyAnalytics Marketing = None \<and>
   partial_get onlyAnalytics Preferences = None \<and>
   marketing (consentState demoMarketing) \<and> \<not> preferences (consentState demoMarketing) \<and>
   necessary (consentState (fst (setConsent demoHost Resolved demoNow onlyAnalytics Accept_selected
                                  (demoMarketing, demoBrowser)))) \<and>
   analytics (consentState (fst (setConsent demoHost Resolved demoNow onlyAnalytics Accept_selected
                                  (demoMarketing, demoBrowser)))) \<and>
   marketing (consentState (fst (setConsent demoHost Resolved demoNow onlyAnalytics Accept_selected
                                  (demoMarketing, demoBrowser)))) \<and>
   \<not> preferences (consentState (fst (setConsent demoHost Resolved demoNow onlyAnalytics Accept_selected
                                  (demoMarketing, demoBrowser))))"
proof -
  note t = setConsent_merges [where h = demoHost and outcome = Resolved and now = demoNow
      and cats = onlyAnalytics and interaction = Accept_selected and client = demoMarketing
      and env = demoBrowser]
  have p: "partial_get onlyAnalytics Necessary = Some False"
    "partial_get onlyAnalytics Analytics = Some True"
    "partial_get onlyAnalytics Marketing = None"
    "partial_get onlyAnalytics Preferences = None"
    "marketing (consentState demoMarketing)" "\<not> preferences (consentState demoMarketing)"
    by (simp_all add: onlyAnalytics_def demoMarketing_def)
  from t have n: "necessary (consentState (fst (setConsent demoHost Resolved demoNow onlyAnalytics
      Accept_selected (demoMarketing, demoBrowser))))"
    by (rule conjunct1)
  have a: "analytics (consentState (fst (setConsent demoHost Resolved demoNow onlyAnalytics
      Accept_selected (demoMarketing, demoBrowser))))"
    using t [THEN conjunct2, rule_format, of Analytics, THEN conjunct2, rule_format, of True] p
    by simp
  have m: "marketing (consentState (fst (setConsent demoHost Resolved demoNow onlyAnalytics
      Accept_selected (demoMarketing, demoBrowser))))"
    using t [THEN conjunct2, rule_format, of Marketing, THEN conjunct1] p by simp
  have f: "\<not> preferences (consentState (fst (setConsent demoHost Resolved demoNow onlyAnalytics
      Accept_selected (demoMarketing, demoBrowser))))"
    using t [THEN conjunct2, rule_format, of Preferences, THEN conjunct1] p by simp
  show ?thesis
    by (intro conjI p n a m f)
qed

lemma demo_merged: "mergedState onlyAnalytics demoClient = grantAnalytics"
  by (simp add: mergedState_def onlyAnalytics_def demoClient_def defaultConsent_def grantAnalytics_def)

lemma demo_recordText: "recordText demoHost demoNow onlyAnalytics demoClient = demoText"
proof -
  have "\<lparr>visitorId = client_visitorId demoClient, sessionId = client_sessionId demoClient,
          categories = grantAnalytics, timestamp = Some demoNow\<rparr> = demoRecord"
    by (simp add: demoClient_def demoRecord_def)
  then show ?thesis
    by (simp add: recordText_def demo_merged demoHost_def)
qed

lemma demo_parts:
  "has_document demoBrowser" "cookies demoBrowser = []" "trace demoBrowser = []"
  "localStore demoBrowser = Area Map.empty" "encodeURIComponent demoHost = (\<lambda>txt. txt)"
  "cookieMaxAge demoClient = 31536000" "scriptAutoBlocker demoClient = Some (fst demoBlocked)"
  by (simp_all add: demoBrowser_def demoHost_def demoClient_def)

lemma demo_effects:
  "persistEffects demoHost demoText 31536000 demoBrowser =
     [CookieAssign CONSENT demoText (Some 31536000), LocalSetItem CONSENT demoText]"
  "signalEffects (googleConsentMode demoClient) grantAnalytics demoBrowser =
     [Gtag (Consent_update (mapConsentToGoogle grantAnalytics))]"
  "scriptEffects grantAnalytics (Some (fst demoBlocked)) (document demoBrowser) = [ReplaceChild 1 0]"
  "attached (scriptDocument grantAnalytics (Some (fst demoBlocked)) (document demoBrowser)) = [1]"
  "notifyEffects (eventEmitter demoClient) Consent_change (PConsent c) =
     [Deliver 0 Consent_change (PConsent c)]"
  by (simp_all add: persistEffects_def signalEffects_def notifyEffects_def storeEffects_def
      scriptEffects_def scriptDocument_def demo_scriptConsumer demo_parts)
    (simp_all add: demoClient_def demoBrowser_def)

theorem setConsent_report_last_witness:
  "snd (snd (setConsent demoHost (Rejected ''NETWORK_ERROR'') demoNow onlyAnalytics Accept_selected
              (demoClient, demoBrowser))) = Fulfilled \<and>
   consentState (fst (setConsent demoHost (Rejected ''NETWORK_ERROR'') demoNow onlyAnalytics
                        Accept_selected (demoClient, demoBrowser))) = grantAnalytics \<and>
   cookies (fst (snd (setConsent demoHost (Rejected ''NETWORK_ERROR'') demoNow onlyAnalytics
                        Accept_selected (demoClient, demoBrowser)))) = [(CONSENT, demoText)] \<and>
   localStore (fst (snd (setConsent demoHost (Rejected ''NETWORK_ERROR'') demoNow onlyAnalytics
                           Accept_selected (demoClient, demoBrowser)))) = Area [CONSENT \<mapsto> demoText] \<and>
   attached (document (fst (snd (setConsent demoHost (Rejected ''NETWORK_ERROR'') demoNow
                                   onlyAnalytics Accept_selected (demoClient, demoBrowser))))) = [1] \<and>
   trace (fst (snd (setConsent demoHost (Rejected ''NETWORK_ERROR'') demoNow onlyAnalytics
                      Accept_selected (demoClient, demoBrowser)))) =
     [CookieAssign CONSENT demoText (Some 31536000),
      LocalSetItem CONSENT demoText,
      Gtag (Consent_update (mapConsentToGoogle grantAnalytics)),
      ReplaceChild 1 0,
      Deliver 0 Consent_change (PConsent grantAnalytics),
      Submit (reportRequest onlyAnalytics Accept_selected demoClient),
      ConsoleError ''[CookiePot] Failed to sync consent to backend:'']"
proof -
  let ?begun = "setConsent_begin demoHost demoNow onlyAnalytics Accept_selected (demoClient, demoBrowser)"
  note t = setConsent_report_last [where h = demoHost and outcome = "Rejected ''NETWORK_ERROR''"
      and now = demoNow and cats = onlyAnalytics and interaction = Accept_selected
      and client = demoClient and env = demoBrowser
      and ?client2.0 = "fst ?begun" and ?env2.0 = "snd ?begun"]
  have b: "consentState (fst ?begun) = grantAnalytics"
    "cookies (snd ?begun) = [(CONSENT, demoText)]"
    "localStore (snd ?begun) = Area [CONSENT \<mapsto> demoText]"
    "attached (document (snd ?begun)) = [1]"
    "trace (snd ?begun) =
       [CookieAssign CONSENT demoText (Some 31536000), LocalSetItem CONSENT demoText,
        Gtag (Consent_update (mapConsentToGoogle grantAnalytics)), ReplaceChild 1 0,
        Deliver 0 Consent_change (PConsent grantAnalytics),
        Submit (reportRequest onlyAnalytics Accept_selected demoClient)]"
    using t [THEN conjunct1]
    by (simp_all add: case_prod_unfold demo_merged demo_recordText demo_effects demo_parts
        cookie_assign_def store_put_def)
  have r: "setConsent demoHost (Rejected ''NETWORK_ERROR'') demoNow onlyAnalytics Accept_selected
        (demoClient, demoBrowser) =
      (fst ?begun,
       (snd ?begun)\<lparr>trace := trace (snd ?begun) @ reportFailure (Rejected ''NETWORK_ERROR'')\<rparr>,
       Fulfilled)"
    using t [THEN conjunct2, THEN conjunct2, THEN conjunct1]
      t [THEN conjunct2, THEN conjunct2, THEN conjunct2, THEN conjunct2]
    by simp
  show ?thesis
    unfolding r by (simp add: b reportFailure_def)
qed

lemma demoConsented_eq:
  "demoConsented =
     (fst (setConsent demoHost Resolved demoNow onlyAnalytics Accept_selected (demoClient, demoBrowser)),
      fst (snd (setConsent demoHost Resolved demoNow onlyAnalytics Accept_selected (demoClient, demoBrowser))))"
  by (simp add: demoConsented_def split: prod.splits)

lemma demoConsented_facts:
  "consentState (fst demoConsented) = grantAnalytics"
  "has_document (snd demoConsented)"
  "cookies (snd demoConsented) = [(CONSENT, demoText)]"
  "localStore (snd demoConsented) = Area [CONSENT \<mapsto> demoText]"
  "eventEmitter (fst demoConsented) = eventEmitter demoClient"
  "\<exists>sb. scriptAutoBlocker (fst demoConsented) = Some sb \<and> script_consent sb = grantAnalytics"
  by (simp_all add: demoConsented_eq setConsent_eq demo_merged demo_recordText demo_parts
      scriptConsumer_consent cookie_assign_def store_put_def)

theorem resetConsent_skips_consumers_witness:
  "consentState (fst demoConsented) = grantAnalytics \<and>
   has_document (snd demoConsented) \<and>
   cookies (snd demoConsented) = [(CONSENT, demoText)] \<and>
   localStore (snd demoConsented) = Area [CONSENT \<mapsto> demoText] \<and>
   consentState (fst (resetConsent demoHost demoConsented)) = defaultConsent \<and>
   map_of (cookies (fst (snd (resetConsent demoHost demoConsented)))) CONSENT = None \<and>
   localStore (fst (snd (resetConsent demoHost demoConsented))) = Area Map.empty \<and>
   (\<exists>sb. scriptAutoBlocker (fst (resetConsent demoHost demoConsented)) = Some sb \<and>
         script_consent sb = grantAnalytics \<and> script_consent sb \<noteq> defaultConsent) \<and>
   trace (fst (snd (resetConsent demoHost demoConsented))) =
     trace (snd demoConsented) @
     [CookieAssign CONSENT [] (Some (- 1)), LocalRemoveItem CONSENT,
      Deliver 0 Consent_change (PConsent defaultConsent)]"
proof -
  note t = resetConsent_skips_consumers [where h = demoHost and client = "fst demoConsented"
      and env = "snd demoConsented" and outcome = Resolved and now = demoNow
      and cats = onlyAnalytics and interaction = Accept_selected, THEN conjunct1]
  have c: "clearEffects demoHost (snd demoConsented) =
      [CookieAssign CONSENT [] (Some (- 1)), LocalRemoveItem CONSENT]"
    by (simp add: clearEffects_def storeEffects_def demoConsented_facts demoHost_def)
  have d: "grantAnalytics \<noteq> defaultConsent"
    by (simp add: grantAnalytics_def defaultConsent_def)
  show ?thesis
    using t demoConsented_facts(6)
    by (simp add: demoConsented_facts(1-5) c d demo_effects store_remove_def split: prod.splits)
qed

end
